theory Spec2Isabelle
  imports Complex_Main
begin

section \<open>EclipGuardX: telemetry collection and reconciliation engine\<close>

text \<open>
  A shallow embedding of the collector (metrics-collector.mjs, \<^verbatim>\<open>src/unnamed/part_010\<close>),
  the container routes (\<^verbatim>\<open>src/unnamed/part_006\<close>, \<^verbatim>\<open>src/unnamed/part_007\<close>), the cleanup
  route (\<^verbatim>\<open>src/src/app/api/cleanup/route.ts\<close>), the dashboard and report routes
  (\<^verbatim>\<open>src/src/app/api/dashboard/route.ts\<close>, \<^verbatim>\<open>src/unnamed/part_008\<close>) and the relational
  schema (\<^verbatim>\<open>src/unnamed/part_000\<close>, \<^verbatim>\<open>src/unnamed/part_001\<close>).

  Conventions of the model.
  \<^item> A JavaScript number is a \<open>jsnum\<close>: a real, one of the two infinities, or NaN.
    Arithmetic on finite numbers is exact: the rounding to the nearest double is not
    modelled, the overflow to an infinity is.
  \<^item> A JavaScript string is a \<open>string\<close>; white space is the ASCII white space.
  \<^item> A point in time is an \<open>int\<close>, the milliseconds since the epoch.
  \<^item> A primary key of the store (a generated text id in the schema) is a \<open>nat\<close>, drawn
    from a counter kept with the tables; only equality of keys is ever used.
  \<^item> Every \<^verbatim>\<open>await\<close> on the store can throw. The environment of a call says which store
    calls throw (\<open>fails\<close>, by the position of the call) and what the clock shows.
\<close>

subsection \<open>JavaScript numbers\<close>

datatype jsnum = Num real | PosInf | NegInf | NaN

definition isNaN :: "jsnum \<Rightarrow> bool" where
  "isNaN x = (x = NaN)"

text \<open>
  The number an operation gives whose exact result is \<open>v\<close>. The largest finite double is
  \<open>2 ^ 1024 - 2 ^ 971\<close>; a result of magnitude \<open>2 ^ 1024 - 2 ^ 970\<close> or more is an
  infinity.
\<close>

definition overflowBound :: real where
  "overflowBound = 2 ^ 1024 - 2 ^ 970"

definition toDouble :: "real \<Rightarrow> jsnum" where
  "toDouble v = (if overflowBound \<le> v then PosInf else if v \<le> - overflowBound then NegInf else Num v)"

text \<open>
  \<^verbatim>\<open>value *= k\<close> and \<^verbatim>\<open>value /= k\<close> for a positive constant \<open>k\<close>.
\<close>

definition jsMul :: "jsnum \<Rightarrow> real \<Rightarrow> jsnum" where
  "jsMul x k = (case x of Num r \<Rightarrow> toDouble (r * k) | PosInf \<Rightarrow> PosInf | NegInf \<Rightarrow> NegInf | NaN \<Rightarrow> NaN)"

definition jsDiv :: "jsnum \<Rightarrow> real \<Rightarrow> jsnum" where
  "jsDiv x k = (case x of Num r \<Rightarrow> toDouble (r / k) | PosInf \<Rightarrow> PosInf | NegInf \<Rightarrow> NegInf | NaN \<Rightarrow> NaN)"

text \<open>
  Sum, difference and quotient of two JavaScript numbers, with the IEEE rules for the
  infinities and NaN (the sign of a zero is not modelled: a division by zero takes the
  zero as positive); \<^verbatim>\<open>Math.min\<close>; and the comparison \<^verbatim>\<open>x > 0\<close>, false of NaN.
\<close>

fun jsPlus :: "jsnum \<Rightarrow> jsnum \<Rightarrow> jsnum" where
  "jsPlus NaN b = NaN"
| "jsPlus a NaN = NaN"
| "jsPlus (Num x) (Num y) = toDouble (x + y)"
| "jsPlus PosInf NegInf = NaN"
| "jsPlus NegInf PosInf = NaN"
| "jsPlus PosInf b = PosInf"
| "jsPlus NegInf b = NegInf"
| "jsPlus a PosInf = PosInf"
| "jsPlus a NegInf = NegInf"

definition jsNeg :: "jsnum \<Rightarrow> jsnum" where
  "jsNeg x = (case x of Num r \<Rightarrow> Num (- r) | PosInf \<Rightarrow> NegInf | NegInf \<Rightarrow> PosInf | NaN \<Rightarrow> NaN)"

definition jsMinus :: "jsnum \<Rightarrow> jsnum \<Rightarrow> jsnum" where
  "jsMinus a b = jsPlus a (jsNeg b)"

fun jsQuot :: "jsnum \<Rightarrow> jsnum \<Rightarrow> jsnum" where
  "jsQuot NaN b = NaN"
| "jsQuot a NaN = NaN"
| "jsQuot (Num x) (Num y) =
     (if y = 0 then (if x = 0 then NaN else if 0 < x then PosInf else NegInf) else toDouble (x / y))"
| "jsQuot (Num x) b = Num 0"
| "jsQuot PosInf (Num y) = (if 0 \<le> y then PosInf else NegInf)"
| "jsQuot NegInf (Num y) = (if 0 \<le> y then NegInf else PosInf)"
| "jsQuot a b = NaN"

fun jsMin :: "jsnum \<Rightarrow> jsnum \<Rightarrow> jsnum" where
  "jsMin NaN b = NaN"
| "jsMin a NaN = NaN"
| "jsMin NegInf b = NegInf"
| "jsMin a NegInf = NegInf"
| "jsMin PosInf b = b"
| "jsMin a PosInf = a"
| "jsMin (Num x) (Num y) = Num (min x y)"

definition jsPositive :: "jsnum \<Rightarrow> bool" where
  "jsPositive x = (case x of Num r \<Rightarrow> 0 < r | PosInf \<Rightarrow> True | NegInf \<Rightarrow> False | NaN \<Rightarrow> False)"

text \<open>
  A number that a \<^verbatim>\<open>REAL NOT NULL\<close> column takes: the store has no NaN and no infinity
  there, and a \<^verbatim>\<open>create\<close> whose row holds one in such a column throws.
\<close>

definition isFinite :: "jsnum \<Rightarrow> bool" where
  "isFinite x = (case x of Num r \<Rightarrow> True | PosInf \<Rightarrow> False | NegInf \<Rightarrow> False | NaN \<Rightarrow> False)"

subsection \<open>Promises\<close>

text \<open>
  A promise that has been resolved with a value, or one that nothing will ever settle.
  \<^verbatim>\<open>Promise.all\<close> of a list is resolved with the list of the values once every element
  is (an element that is not a promise counts as resolved), and stays pending with a
  pending element. \<^verbatim>\<open>await\<close> resumes with the value of a resolved promise; on a pending
  one the function never resumes, which is the result \<open>None\<close>.
\<close>

datatype 'a promise = Resolved 'a | Pending

fun promiseAll :: "'a promise list \<Rightarrow> 'a list promise" where
  "promiseAll [] = Resolved []"
| "promiseAll (Pending # ps) = Pending"
| "promiseAll (Resolved a # ps) =
     (case promiseAll ps of Pending \<Rightarrow> Pending | Resolved as \<Rightarrow> Resolved (a # as))"

definition await :: "'a promise \<Rightarrow> 'a option" where
  "await p = (case p of Resolved a \<Rightarrow> Some a | Pending \<Rightarrow> None)"

subsection \<open>The relational store\<close>

text \<open>Table \<^verbatim>\<open>Container\<close>; \<open>c_containerId\<close> carries the unique index (the runtime id).\<close>

record container =
  c_id :: nat
  c_containerId :: string
  c_name :: string
  c_image :: string
  c_status :: string
  c_ports :: "string option"
  c_createdAt :: int
  c_updatedAt :: int

text \<open>Table \<^verbatim>\<open>ContainerMetric\<close>; \<open>m_containerId\<close> references \<open>c_id\<close>, ON DELETE CASCADE.\<close>

record containerMetric =
  m_id :: nat
  m_containerId :: nat
  m_cpuUsage :: jsnum
  m_memUsage :: jsnum
  m_memLimit :: "jsnum option"
  m_netIn :: jsnum
  m_netOut :: jsnum
  m_diskRead :: "jsnum option"
  m_diskWrite :: "jsnum option"
  m_timestamp :: int

text \<open>Table \<^verbatim>\<open>Alert\<close>; \<open>a_containerId\<close> is nullable and references \<open>c_id\<close>, ON DELETE SET NULL.\<close>

record alert =
  a_id :: nat
  a_severity :: string
  a_message :: string
  a_source :: string
  a_containerId :: "nat option"
  a_timestamp :: int
  a_resolved :: bool

text \<open>Table \<^verbatim>\<open>Scan\<close>; \<open>s_containerId\<close> references \<open>c_id\<close>, ON DELETE CASCADE.\<close>

record scan =
  s_id :: nat
  s_containerId :: nat
  s_scanType :: string
  s_status :: string
  s_result :: "string option"
  s_summary :: "string option"
  s_timestamp :: int
  s_duration :: "int option"

text \<open>Table \<^verbatim>\<open>ContainerLog\<close>; \<open>l_containerId\<close> references \<open>c_id\<close>, ON DELETE CASCADE.\<close>

record containerLog =
  l_id :: nat
  l_containerId :: nat
  l_logLevel :: string
  l_message :: string
  l_timestamp :: int
  l_source :: "string option"

text \<open>Table \<^verbatim>\<open>SystemMetric\<close>.\<close>

record systemMetric =
  y_id :: nat
  y_cpuUsage :: jsnum
  y_cpuLoad1 :: jsnum
  y_cpuLoad5 :: jsnum
  y_cpuLoad15 :: jsnum
  y_ramUsed :: jsnum
  y_ramFree :: jsnum
  y_ramUsagePercent :: jsnum
  y_ramTotal :: jsnum
  y_diskUsed :: jsnum
  y_diskFree :: jsnum
  y_diskUsagePercent :: jsnum
  y_diskTotal :: jsnum
  y_networkIn :: jsnum
  y_networkOut :: jsnum
  y_timestamp :: int

record database =
  containers :: "container list"
  metrics :: "containerMetric list"
  alerts :: "alert list"
  scans :: "scan list"
  logs :: "containerLog list"
  systemMetrics :: "systemMetric list"
  nextId :: nat

text \<open>
  The environment of one call of the collector or of a route: \<open>fails i\<close> says that the
  \<open>i\<close>-th store call of this run throws, \<open>thrown i\<close> is the text of what it throws,
  \<open>clock i\<close> is what \<^verbatim>\<open>new Date()\<close> shows there.
\<close>

record env =
  fails :: "nat \<Rightarrow> bool"
  thrown :: "nat \<Rightarrow> string"
  clock :: "nat \<Rightarrow> int"

subsection \<open>Deleting containers: the foreign-key actions of the schema\<close>

text \<open>
  \<^verbatim>\<open>DELETE FROM Container WHERE p\<close> under the constraints of \<^verbatim>\<open>src/unnamed/part_001\<close>:
  rows of \<^verbatim>\<open>ContainerMetric\<close>, \<^verbatim>\<open>Scan\<close> and \<^verbatim>\<open>ContainerLog\<close> that reference a deleted
  container are deleted with it (ON DELETE CASCADE); rows of \<^verbatim>\<open>Alert\<close> that reference it
  stay, with the reference set to NULL (ON DELETE SET NULL).
\<close>

definition deletedIds :: "(container \<Rightarrow> bool) \<Rightarrow> database \<Rightarrow> nat list" where
  "deletedIds p db = map c_id (filter p (containers db))"

definition setNull :: "nat list \<Rightarrow> alert \<Rightarrow> alert" where
  "setNull gone a =
     (case a_containerId a of
        None \<Rightarrow> a
      | Some k \<Rightarrow> if k \<in> set gone then a\<lparr>a_containerId := None\<rparr> else a)"

definition deleteContainersWhere :: "(container \<Rightarrow> bool) \<Rightarrow> database \<Rightarrow> database" where
  "deleteContainersWhere p db =
     (let gone = deletedIds p db in
      db\<lparr>containers := filter (\<lambda>c. \<not> p c) (containers db),
         metrics := filter (\<lambda>m. m_containerId m \<notin> set gone) (metrics db),
         scans := filter (\<lambda>s. s_containerId s \<notin> set gone) (scans db),
         logs := filter (\<lambda>l. l_containerId l \<notin> set gone) (logs db),
         alerts := map (setNull gone) (alerts db)\<rparr>)"

subsection \<open>Inventory Reconciler\<close>

text \<open>An element of \<^verbatim>\<open>allList\<close>: one container as the runtime reports it.\<close>

record containerInfo =
  ci_id :: string
  ci_name :: string
  ci_image :: string
  ci_status :: string
  ci_ports :: "string option"
  ci_isRunning :: bool

text \<open>\<^verbatim>\<open>container.ports || null\<close>: an absent or empty port text is stored as NULL.\<close>

definition portsOrNull :: "string option \<Rightarrow> string option" where
  "portsOrNull p = (case p of None \<Rightarrow> None | Some s \<Rightarrow> if s = [] then None else Some s)"

text \<open>
  \<^verbatim>\<open>container.upsert\<close> keyed by the unique \<^verbatim>\<open>containerId\<close>: the row that has the key gets
  the \<^verbatim>\<open>update\<close> fields; when no row has it, a row is created with a new primary key.
\<close>

definition upsert :: "int \<Rightarrow> containerInfo \<Rightarrow> database \<Rightarrow> database" where
  "upsert now ci db =
     (if ci_id ci \<in> set (map c_containerId (containers db))
      then db\<lparr>containers :=
                 map (\<lambda>c. if c_containerId c = ci_id ci
                           then c\<lparr>c_name := ci_name ci, c_image := ci_image ci,
                                  c_status := ci_status ci, c_ports := portsOrNull (ci_ports ci),
                                  c_updatedAt := now\<rparr>
                           else c) (containers db)\<rparr>
      else db\<lparr>containers := containers db @
                 [\<lparr>c_id = nextId db, c_containerId = ci_id ci, c_name = ci_name ci,
                   c_image = ci_image ci, c_status = ci_status ci,
                   c_ports = portsOrNull (ci_ports ci),
                   c_createdAt = now, c_updatedAt = now\<rparr>],
              nextId := Suc (nextId db)\<rparr>)"

text \<open>
  The loop \<^verbatim>\<open>for (const container of allList) await upsert(...)\<close>; the \<open>i\<close>-th store call
  of the run is the upsert of the \<open>i\<close>-th container. The result says whether the loop ran
  to its end, with the store as the loop left it (a throw keeps what was written).
\<close>

fun upsertAll :: "env \<Rightarrow> nat \<Rightarrow> containerInfo list \<Rightarrow> database \<Rightarrow> bool \<times> database" where
  "upsertAll e i [] db = (True, db)"
| "upsertAll e i (ci # rest) db =
     (if fails e i then (False, db)
      else upsertAll e (Suc i) rest (upsert (clock e i) ci db))"

text \<open>
  \<^verbatim>\<open>syncContainersToDatabase(allContainers)\<close> of \<^verbatim>\<open>src/unnamed/part_006\<close> (lines 136-178),
  the same text as \<^verbatim>\<open>src/unnamed/part_007\<close> and as lines 57-89 of the collector's method.
  A throw ends the function in its \<^verbatim>\<open>catch\<close>, which only logs.
\<close>

definition syncContainersToDatabase :: "env \<Rightarrow> containerInfo list \<Rightarrow> database \<Rightarrow> database" where
  "syncContainersToDatabase e allContainers db =
     (let currentDockerIds = map ci_id allContainers in
      case upsertAll e 0 allContainers db of
        (False, db1) \<Rightarrow> db1
      | (True, db1) \<Rightarrow>
          if length currentDockerIds > 0
          then (if fails e (length allContainers) then db1
                else deleteContainersWhere (\<lambda>c. c_containerId c \<notin> set currentDockerIds) db1)
          else db1)"

subsection \<open>Strings and numbers of the runtime's output\<close>

text \<open>
  The character classes of the source's regular expressions: \<^verbatim>\<open>\d\<close> (a decimal
  digit) and the ASCII part of \<^verbatim>\<open>\s\<close> (space, tab, line feed, vertical tab, form feed,
  carriage return).
\<close>

definition isDigit :: "char \<Rightarrow> bool" where
  "isDigit c = (c \<in> set ''0123456789'')"

definition isSpace :: "char \<Rightarrow> bool" where
  "isSpace c = (c \<in> {CHR '' '', CHR 0x09, CHR 0x0A, CHR 0x0B, CHR 0x0C, CHR 0x0D})"

text \<open>The number a string of decimal digits denotes.\<close>

definition digitVal :: "char \<Rightarrow> nat" where
  "digitVal c = of_char c - 48"

definition digitsVal :: "string \<Rightarrow> nat" where
  "digitsVal ds = foldl (\<lambda>n c. 10 * n + digitVal c) 0 ds"

text \<open>\<^verbatim>\<open>s.trim()\<close>.\<close>

definition trim :: "string \<Rightarrow> string" where
  "trim s = rev (dropWhile isSpace (rev (dropWhile isSpace s)))"

text \<open>
  \<^verbatim>\<open>s.split(d)\<close> at a single character: the pieces between the separators, empty pieces
  kept; the empty string gives one empty piece.
\<close>

fun splitOn :: "char \<Rightarrow> string \<Rightarrow> string list" where
  "splitOn d [] = [[]]"
| "splitOn d (c # s) =
     (if c = d then [] # splitOn d s
      else (case splitOn d s of [] \<Rightarrow> [[c]] | x # xs \<Rightarrow> (c # x) # xs))"

text \<open>
  \<^verbatim>\<open>s.split(/\s+/)\<close>: as \<open>splitOn\<close>, a run of white space being one separator. White
  space at the start or at the end of \<open>s\<close> gives an empty first or last piece.
\<close>

function splitWs :: "string \<Rightarrow> string list" where
  "splitWs [] = [[]]"
| "splitWs (c # s) =
     (if isSpace c then [] # splitWs (dropWhile isSpace s)
      else (case splitWs s of [] \<Rightarrow> [[c]] | x # xs \<Rightarrow> (c # x) # xs))"
  by pat_completeness auto
termination
  by (relation "measure length") (auto simp: length_dropWhile_le less_Suc_eq_le)

text \<open>\<^verbatim>\<open>s.toUpperCase()\<close>, on ASCII.\<close>

definition toUpperCase :: "string \<Rightarrow> string" where
  "toUpperCase s =
     map (\<lambda>c. case map_of (zip ''abcdefghijklmnopqrstuvwxyz'' ''ABCDEFGHIJKLMNOPQRSTUVWXYZ'') c of
                 None \<Rightarrow> c | Some u \<Rightarrow> u) s"

text \<open>
  \<^verbatim>\<open>parseFloat(str)\<close>: leading white space is skipped, then the longest prefix that is a
  decimal literal is read: an optional sign, then \<^verbatim>\<open>Infinity\<close> or digits with an optional
  fraction (one of the two may be empty, not both) and an optional exponent. NaN when
  there is no such prefix, an infinity when the literal is beyond the range of a double.
  \<open>signOf\<close> reads the sign, \<open>exponentOf\<close> the exponent part (0 when there is none),
  \<open>pow10\<close> is the power of ten.
\<close>

definition signOf :: "string \<Rightarrow> bool \<times> string" where
  "signOf s =
     (case s of
        [] \<Rightarrow> (False, s)
      | c # r \<Rightarrow> if c = CHR ''-'' then (True, r) else if c = CHR ''+'' then (False, r) else (False, s))"

definition exponentOf :: "string \<Rightarrow> int" where
  "exponentOf s =
     (case s of
        [] \<Rightarrow> 0
      | c # r \<Rightarrow>
          if c = CHR ''e'' \<or> c = CHR ''E''
          then (let (neg, ds) = signOf r; digs = takeWhile isDigit ds in
                if digs = [] then 0
                else if neg then - int (digitsVal digs) else int (digitsVal digs))
          else 0)"

definition pow10 :: "int \<Rightarrow> real" where
  "pow10 k = (if 0 \<le> k then 10 ^ nat k else 1 / 10 ^ nat (- k))"

definition parseFloat :: "string \<Rightarrow> jsnum" where
  "parseFloat str =
     (let (neg, s) = signOf (dropWhile isSpace str) in
      if take 8 s = ''Infinity'' then (if neg then NegInf else PosInf)
      else
        let ip = takeWhile isDigit s;
            r1 = dropWhile isDigit s;
            fp = (case r1 of [] \<Rightarrow> [] | c # r \<Rightarrow> if c = CHR ''.'' then takeWhile isDigit r else []);
            r2 = (case r1 of [] \<Rightarrow> [] | c # r \<Rightarrow> if c = CHR ''.'' then dropWhile isDigit r else r1)
        in if ip = [] \<and> fp = [] then NaN
           else let v = (real (digitsVal ip) + real (digitsVal fp) / 10 ^ length fp)
                          * pow10 (exponentOf r2)
                in toDouble (if neg then - v else v))"

text \<open>
  The pattern \<^verbatim>\<open>/(\d+(?:\.\d+)?)([KMGT]?)i?B?/i\<close> of \<^verbatim>\<open>parseBytes\<close> and of the memory limit.
  It is not anchored, and everything after the first digit is optional: the match
  starts at the first digit of the string, group 1 is the longest run of digits there,
  with a fraction when a point and a digit follow (\<open>numberAt\<close>, which also returns the
  rest of the string), and group 2 is the unit letter right after it, in either case, or
  empty (\<open>unitAt\<close>). \<open>unitMatch\<close> gives the two groups, or \<open>None\<close> for no match.
\<close>

definition isUnit :: "char \<Rightarrow> bool" where
  "isUnit c = (c \<in> set ''KMGTkmgt'')"

definition numberAt :: "string \<Rightarrow> string \<times> string" where
  "numberAt s =
     (let ip = takeWhile isDigit s; r1 = dropWhile isDigit s in
      case r1 of
        [] \<Rightarrow> (ip, r1)
      | c # r \<Rightarrow>
          if c = CHR ''.'' \<and> takeWhile isDigit r \<noteq> []
          then (ip @ c # takeWhile isDigit r, dropWhile isDigit r)
          else (ip, r1))"

definition unitAt :: "string \<Rightarrow> string" where
  "unitAt s = (case s of [] \<Rightarrow> [] | c # r \<Rightarrow> if isUnit c then [c] else [])"

fun unitMatch :: "string \<Rightarrow> (string \<times> string) option" where
  "unitMatch [] = None"
| "unitMatch (c # s) =
     (if isDigit c then (let (n, r) = numberAt (c # s) in Some (n, unitAt r))
      else unitMatch s)"

text \<open>\<^verbatim>\<open>parseBytes(str)\<close>, lines 424-448 of the collector.\<close>

definition parseBytes :: "string \<Rightarrow> jsnum" where
  "parseBytes str =
     (if str = [] then Num 0
      else case unitMatch str of
        None \<Rightarrow> Num 0
      | Some (num, u) \<Rightarrow>
          (let value = parseFloat num; unit = toUpperCase u in
           if unit = ''K'' \<or> unit = ''KB'' then jsMul value 1024
           else if unit = ''M'' \<or> unit = ''MB'' then jsMul value (1024 * 1024)
           else if unit = ''G'' \<or> unit = ''GB'' then jsMul value (1024 * 1024 * 1024)
           else if unit = ''T'' \<or> unit = ''TB'' then jsMul value (1024 * 1024 * 1024 * 1024)
           else value))"

subsection \<open>Runtime Stats Parser\<close>

text \<open>The object \<^verbatim>\<open>metricData\<close>, lines 386-395.\<close>

record metricData =
  d_containerId :: nat
  d_cpuUsage :: jsnum
  d_memUsage :: jsnum
  d_memLimit :: "jsnum option"
  d_netIn :: jsnum
  d_netOut :: jsnum
  d_diskRead :: "jsnum option"
  d_diskWrite :: "jsnum option"

text \<open>
  The pattern \<^verbatim>\<open>/([\d.]+[KMGT]?)i?B?\s*\/\s*([\d.]+[KMGT]?)i?B?/i\<close> of the network and block
  I/O. \<open>quantityAt\<close> reads \<^verbatim>\<open>[\d.]+[KMGT]?\<close> at the head of a string (the group, and
  the rest); \<open>ioAt\<close> tries the whole pattern at the head of a string, greedily (no
  shorter choice can match where the longest fails, since what follows a group cannot
  consume a digit, a point or a unit letter); \<open>ioMatch\<close> tries the start positions from
  left to right and gives the two groups of the first match.
\<close>

definition isNumCh :: "char \<Rightarrow> bool" where
  "isNumCh c = (isDigit c \<or> c = CHR ''.'')"

definition optCh :: "string \<Rightarrow> string \<Rightarrow> string" where
  "optCh cs s = (case s of [] \<Rightarrow> [] | c # r \<Rightarrow> if c \<in> set cs then r else s)"

definition quantityAt :: "string \<Rightarrow> string \<times> string" where
  "quantityAt s =
     (let n = takeWhile isNumCh s; r = dropWhile isNumCh s
      in (n @ unitAt r, drop (length (unitAt r)) r))"

definition ioAt :: "string \<Rightarrow> (string \<times> string) option" where
  "ioAt s =
     (let (g1, r1) = quantityAt s;
          r2 = dropWhile isSpace (optCh ''Bb'' (optCh ''iI'' r1))
      in case r2 of
           [] \<Rightarrow> None
         | c # r3 \<Rightarrow>
             if c = CHR ''/''
             then (let t = dropWhile isSpace r3 in
                   if takeWhile isNumCh t = [] then None else Some (g1, fst (quantityAt t)))
             else None)"

fun ioMatch :: "string \<Rightarrow> (string \<times> string) option" where
  "ioMatch [] = None"
| "ioMatch (c # s) =
     (if isNumCh c then (case ioAt (c # s) of None \<Rightarrow> ioMatch s | Some m \<Rightarrow> Some m)
      else ioMatch s)"

text \<open>\<^verbatim>\<open>${parts[i]}\<close> in a template string: a missing element prints as \<^verbatim>\<open>undefined\<close>.\<close>

definition part :: "string list \<Rightarrow> nat \<Rightarrow> string" where
  "part parts i = (if i < length parts then parts ! i else ''undefined'')"

text \<open>
  Lines 338-363: the memory limit in MB from \<^verbatim>\<open>memUsageString\<close>; \<open>None\<close> is \<^verbatim>\<open>null\<close>. A
  limit without a unit letter, or in M, is taken as it is.
\<close>

definition memLimitMB :: "string \<Rightarrow> jsnum option" where
  "memLimitMB memUsageString =
     (case splitOn CHR ''/'' memUsageString of
        p0 # p1 # ps \<Rightarrow>
          (let memLimitValue = trim p1 in
           if memLimitValue = [] then None
           else case unitMatch memLimitValue of
             None \<Rightarrow> None
           | Some (num, u) \<Rightarrow>
               (let value = parseFloat num; unit = toUpperCase u in
                Some (if unit = ''G'' \<or> unit = ''GB'' then jsMul value 1024
                      else if unit = ''K'' \<or> unit = ''KB'' then jsDiv value 1024
                      else if unit = ''T'' \<or> unit = ''TB'' then jsMul value (1024 * 1024)
                      else value)))
      | _ \<Rightarrow> None)"

text \<open>
  Lines 308-395 of \<^verbatim>\<open>collectSingleContainerMetrics\<close>: from the output of the stats query
  to the object \<^verbatim>\<open>metricData\<close>, or to no object where the source returns early. \<open>cid\<close> is
  \<^verbatim>\<open>container.id\<close>, the key of the container's row.
\<close>

definition metricDataOf :: "nat \<Rightarrow> string \<Rightarrow> metricData option" where
  "metricDataOf cid stdout =
     (if trim stdout = [] then None
      else let line = hd (splitOn CHR 0x0A (trim stdout)) in
        if line = [] then None
        else let parts = splitWs line in
          if length parts < 9 then None
          else
            let cpuPerc = parts ! 1;
                memPerc = parts ! 5;
                netIO = parts ! 6 @ '' / '' @ parts ! 8;
                blockIO = part parts 9 @ '' / '' @ part parts 11;
                cpuUsage = parseFloat (remove1 CHR ''%'' cpuPerc);
                memUsagePercent = parseFloat (remove1 CHR ''%'' memPerc);
                memUsageString = parts ! 2 @ '' / '' @ parts ! 4;
                netIOMatch = ioMatch netIO;
                blockIOMatch = ioMatch blockIO
            in Some \<lparr>d_containerId = cid,
                     d_cpuUsage = (if isNaN cpuUsage then Num 0 else cpuUsage),
                     d_memUsage = (if isNaN memUsagePercent then Num 0 else memUsagePercent),
                     d_memLimit = memLimitMB memUsageString,
                     d_netIn = (case netIOMatch of None \<Rightarrow> Num 0 | Some (a, b) \<Rightarrow> parseBytes a),
                     d_netOut = (case netIOMatch of None \<Rightarrow> Num 0 | Some (a, b) \<Rightarrow> parseBytes b),
                     d_diskRead = (case blockIOMatch of None \<Rightarrow> None | Some (a, b) \<Rightarrow> Some (parseBytes a)),
                     d_diskWrite = (case blockIOMatch of None \<Rightarrow> None | Some (a, b) \<Rightarrow> Some (parseBytes b))\<rparr>)"

text \<open>\<^verbatim>\<open>container.findUnique({ where: { containerId } })\<close>.\<close>

definition findUnique :: "string \<Rightarrow> database \<Rightarrow> container option" where
  "findUnique k db = find (\<lambda>c. c_containerId c = k) (containers db)"

text \<open>\<^verbatim>\<open>containerMetric.create({ data: metricData })\<close>; the time stamp is the column's default.\<close>

definition createMetric :: "int \<Rightarrow> metricData \<Rightarrow> database \<Rightarrow> database" where
  "createMetric now d db =
     db\<lparr>metrics := metrics db @
           [\<lparr>m_id = nextId db, m_containerId = d_containerId d, m_cpuUsage = d_cpuUsage d,
             m_memUsage = d_memUsage d, m_memLimit = d_memLimit d, m_netIn = d_netIn d,
             m_netOut = d_netOut d, m_diskRead = d_diskRead d, m_diskWrite = d_diskWrite d,
             m_timestamp = now\<rparr>],
        nextId := Suc (nextId db)\<rparr>"

text \<open>
  Of table \<^verbatim>\<open>ContainerMetric\<close> the columns \<^verbatim>\<open>cpuUsage\<close>, \<^verbatim>\<open>memUsage\<close>, \<^verbatim>\<open>netIn\<close> and \<^verbatim>\<open>netOut\<close>
  are \<^verbatim>\<open>REAL NOT NULL\<close>.
\<close>

definition metricAccepted :: "metricData \<Rightarrow> bool" where
  "metricAccepted d =
     (isFinite (d_cpuUsage d) \<and> isFinite (d_memUsage d) \<and> isFinite (d_netIn d) \<and> isFinite (d_netOut d))"

text \<open>
  \<^verbatim>\<open>collectSingleContainerMetrics(containerId)\<close>, lines 291-422. \<open>stats\<close> is the outcome of
  the stats query: \<open>None\<close> when \<^verbatim>\<open>execAsync\<close> rejects, else its standard output. Store call
  0 is the lookup, store call 1 the insert. Every throw, of the store too, ends in the
  \<^verbatim>\<open>catch\<close>, which only logs. The broadcast after the insert changes nothing in the store
  and is left out.
\<close>

definition collectSingleContainerMetrics ::
  "env \<Rightarrow> string \<Rightarrow> string option \<Rightarrow> database \<Rightarrow> database" where
  "collectSingleContainerMetrics e containerId stats db =
     (if fails e 0 then db
      else case findUnique containerId db of
        None \<Rightarrow> db
      | Some container \<Rightarrow>
          (case stats of
             None \<Rightarrow> db
           | Some stdout \<Rightarrow>
               (case metricDataOf (c_id container) stdout of
                  None \<Rightarrow> db
                | Some d \<Rightarrow>
                    if fails e 1 then db
                    else if metricAccepted d then createMetric (clock e 1) d db
                    else db)))"

subsection \<open>Host Sampler\<close>

text \<open>
  \<^verbatim>\<open>parseInt(s)\<close> without a radix: leading white space, a sign, then hexadecimal digits
  after \<^verbatim>\<open>0x\<close> and decimal digits otherwise; NaN when there is no digit.
\<close>

definition isHexDigit :: "char \<Rightarrow> bool" where
  "isHexDigit c = (c \<in> set ''0123456789abcdefABCDEF'')"

definition hexDigitVal :: "char \<Rightarrow> nat" where
  "hexDigitVal c =
     (if isDigit c then of_char c - 48
      else if c \<in> set ''abcdef'' then of_char c - 87
      else of_char c - 55)"

definition parseInt :: "string \<Rightarrow> jsnum" where
  "parseInt str =
     (let (neg, s) = signOf (dropWhile isSpace str);
          hex = (take 2 s = ''0x'' \<or> take 2 s = ''0X'');
          ds = (if hex then takeWhile isHexDigit (drop 2 s) else takeWhile isDigit s);
          v = (if hex then int (foldl (\<lambda>n c. 16 * n + hexDigitVal c) 0 ds)
               else int (digitsVal ds))
      in if ds = [] then NaN else toDouble (real_of_int (if neg then - v else v)))"

text \<open>The seven buckets of the \<^verbatim>\<open>cpu\<close> line of \<^verbatim>\<open>/proc/stat\<close>, each a number or NaN.\<close>

record cpuTimes =
  t_user :: jsnum
  t_nice :: jsnum
  t_system :: jsnum
  t_idle :: jsnum
  t_iowait :: jsnum
  t_irq :: jsnum
  t_softirq :: jsnum

text \<open>The inner function \<^verbatim>\<open>parseCPU(line)\<close>, lines 249-262; \<open>None\<close> is \<^verbatim>\<open>null\<close>.\<close>

definition parseCPU :: "string \<Rightarrow> cpuTimes option" where
  "parseCPU line =
     (let parts = splitWs line in
      if hd parts \<noteq> ''cpu'' then None
      else Some \<lparr>t_user = parseInt (part parts 1), t_nice = parseInt (part parts 2),
                 t_system = parseInt (part parts 3), t_idle = parseInt (part parts 4),
                 t_iowait = parseInt (part parts 5), t_irq = parseInt (part parts 6),
                 t_softirq = parseInt (part parts 7)\<rparr>)"

text \<open>Lines 270-275: the sum of the seven buckets, and idle plus iowait.\<close>

definition totalOf :: "cpuTimes \<Rightarrow> jsnum" where
  "totalOf t =
     jsPlus (jsPlus (jsPlus (jsPlus (jsPlus (jsPlus (t_user t) (t_nice t)) (t_system t))
       (t_idle t)) (t_iowait t)) (t_irq t)) (t_softirq t)"

definition idleOf :: "cpuTimes \<Rightarrow> jsnum" where
  "idleOf t = jsPlus (t_idle t) (t_iowait t)"

text \<open>
  Lines 267-281 of \<^verbatim>\<open>getCPUUsage\<close>: the usage from the two parsed snapshots. A comparison
  with NaN is false, so a NaN total gives 0.
\<close>

definition cpuUsageOf :: "cpuTimes option \<Rightarrow> cpuTimes option \<Rightarrow> jsnum" where
  "cpuUsageOf first second =
     (case first of
        None \<Rightarrow> Num 0
      | Some f \<Rightarrow>
          (case second of
             None \<Rightarrow> Num 0
           | Some s \<Rightarrow>
               (let totalDiff = jsMinus (totalOf s) (totalOf f);
                    idleDiff = jsMinus (idleOf s) (idleOf f)
                in if jsPositive totalDiff
                   then jsMul (jsQuot (jsMinus totalDiff idleDiff) totalDiff) 100
                   else Num 0)))"

text \<open>
  \<^verbatim>\<open>getCPUUsage()\<close>, lines 241-289. \<open>procStat\<close> is the outcome of the first
  \<^verbatim>\<open>fs.readFileSync('/proc/stat', 'utf8')\<close>, \<open>None\<close> when it throws; \<open>loadAvg\<close> and
  \<open>cpuCount\<close> are \<^verbatim>\<open>os.loadavg()[0]\<close> and \<^verbatim>\<open>os.cpus().length\<close>. The result \<open>None\<close> says
  that the call never settles.

  The array given to \<^verbatim>\<open>Promise.all\<close> holds the text of the first read and
  \<^verbatim>\<open>new Promise(resolve => setTimeout(() => fs.readFileSync('/proc/stat', 'utf8'), 1000))\<close>.
  The executor of that promise starts a timer and never calls \<^verbatim>\<open>resolve\<close>; the callback
  of the timer reads the file and drops the text. So the second element stays pending,
  the promise of \<^verbatim>\<open>Promise.all\<close> with it, and the \<^verbatim>\<open>await\<close> of line 244 never resumes:
  lines 249-281 are what would run on the two texts. When the first read throws, the
  \<^verbatim>\<open>catch\<close> returns the approximation from the load average.
\<close>

definition getCPUUsage :: "string option \<Rightarrow> real \<Rightarrow> nat \<Rightarrow> jsnum option" where
  "getCPUUsage procStat loadAvg cpuCount =
     (case procStat of
        None \<Rightarrow> Some (jsMin (jsMul (jsQuot (Num loadAvg) (Num (real cpuCount))) 100) (Num 100))
      | Some stat \<Rightarrow>
          (case await (promiseAll [Resolved stat, Pending]) of
             None \<Rightarrow> None
           | Some reads \<Rightarrow>
               (let firstRead = reads ! 0;
                    secondRead = reads ! 1;
                    first = parseCPU (hd (splitOn CHR 0x0A firstRead));
                    second = parseCPU (hd (splitOn CHR 0x0A secondRead))
                in Some (cpuUsageOf first second))))"

text \<open>
  What \<^verbatim>\<open>collectSystemMetrics\<close> reads from the host: the outcome of the read of
  \<^verbatim>\<open>/proc/stat\<close> in \<^verbatim>\<open>getCPUUsage\<close>, the load averages, the number of CPUs, total and free
  memory, the output of the disk query (\<open>None\<close> when \<^verbatim>\<open>execAsync\<close> rejects) and the two
  network totals of lines 163-194.
\<close>

record hostReadings =
  h_procStat :: "string option"
  h_load1 :: real
  h_load5 :: real
  h_load15 :: real
  h_cpuCount :: nat
  h_totalMemory :: real
  h_freeMemory :: real
  h_dfOutput :: "string option"
  h_networkIn :: real
  h_networkOut :: real

text \<open>The expression \<^verbatim>\<open>(x / whole) * 100\<close> of lines 146 and 159.\<close>

definition percentOf :: "jsnum \<Rightarrow> jsnum \<Rightarrow> jsnum" where
  "percentOf x whole = jsMul (jsQuot x whole) 100"

text \<open>
  Lines 141-212: the object \<^verbatim>\<open>systemMetricsData\<close> as the row the store makes of it (\<open>k\<close>
  its key, \<open>now\<close> its time stamp), from the value \<open>cpuUsage\<close> that line 140 awaited.
  \<^verbatim>\<open>diskInfo[2].replace\<close> and \<^verbatim>\<open>diskInfo[3].replace\<close> throw on a missing field, which ends
  the function in its \<^verbatim>\<open>catch\<close>.
\<close>

definition systemMetricsData :: "nat \<Rightarrow> int \<Rightarrow> jsnum \<Rightarrow> hostReadings \<Rightarrow> systemMetric option" where
  "systemMetricsData k now cpuUsage h =
     (case h_dfOutput h of
        None \<Rightarrow> None
      | Some dfOutput \<Rightarrow>
          (let totalMemory = h_totalMemory h;
               freeMemory = h_freeMemory h;
               usedMemory = totalMemory - freeMemory;
               ramUsagePercent = percentOf (Num usedMemory) (Num totalMemory);
               diskInfo = splitWs (trim dfOutput)
           in if length diskInfo < 4 then None
              else
                let diskUsed = parseFloat (remove1 CHR ''M'' (diskInfo ! 2));
                    diskFree = parseFloat (remove1 CHR ''M'' (diskInfo ! 3));
                    diskTotal = jsPlus diskUsed diskFree;
                    diskUsagePercent = percentOf diskUsed diskTotal
                in Some \<lparr>y_id = k,
                         y_cpuUsage = (if isNaN cpuUsage then Num 0 else cpuUsage),
                         y_cpuLoad1 = Num (h_load1 h),
                         y_cpuLoad5 = Num (h_load5 h),
                         y_cpuLoad15 = Num (h_load15 h),
                         y_ramUsed = Num (usedMemory / (1024 * 1024)),
                         y_ramFree = Num (freeMemory / (1024 * 1024)),
                         y_ramUsagePercent = (if isNaN ramUsagePercent then Num 0 else ramUsagePercent),
                         y_ramTotal = Num (totalMemory / (1024 * 1024)),
                         y_diskUsed = diskUsed,
                         y_diskFree = diskFree,
                         y_diskUsagePercent = (if isNaN diskUsagePercent then Num 0 else diskUsagePercent),
                         y_diskTotal = diskTotal,
                         y_networkIn = Num (h_networkIn h),
                         y_networkOut = Num (h_networkOut h),
                         y_timestamp = now\<rparr>))"

text \<open>The columns of table \<^verbatim>\<open>SystemMetric\<close> are all \<^verbatim>\<open>REAL NOT NULL\<close>.\<close>

definition systemMetricAccepted :: "systemMetric \<Rightarrow> bool" where
  "systemMetricAccepted y =
     (isFinite (y_cpuUsage y) \<and> isFinite (y_cpuLoad1 y) \<and> isFinite (y_cpuLoad5 y) \<and>
      isFinite (y_cpuLoad15 y) \<and> isFinite (y_ramUsed y) \<and> isFinite (y_ramFree y) \<and>
      isFinite (y_ramUsagePercent y) \<and> isFinite (y_ramTotal y) \<and> isFinite (y_diskUsed y) \<and>
      isFinite (y_diskFree y) \<and> isFinite (y_diskUsagePercent y) \<and> isFinite (y_diskTotal y) \<and>
      isFinite (y_networkIn y) \<and> isFinite (y_networkOut y))"

text \<open>
  \<^verbatim>\<open>collectSystemMetrics()\<close>, lines 135-239. Line 140 awaits \<^verbatim>\<open>getCPUUsage()\<close>: when that
  call never settles, this one never settles either (\<open>None\<close>) and nothing is written.
  Otherwise the record is built and inserted (store call 0); a throw on the way, of the
  store too, leaves the store as it was. The broadcast is left out.
\<close>

definition collectSystemMetrics :: "env \<Rightarrow> hostReadings \<Rightarrow> database \<Rightarrow> database option" where
  "collectSystemMetrics e h db =
     (case getCPUUsage (h_procStat h) (h_load1 h) (h_cpuCount h) of
        None \<Rightarrow> None
      | Some cpuUsage \<Rightarrow>
          Some (case systemMetricsData (nextId db) (clock e 0) cpuUsage h of
                  None \<Rightarrow> db
                | Some row \<Rightarrow>
                    if fails e 0 then db
                    else if systemMetricAccepted row
                    then db\<lparr>systemMetrics := systemMetrics db @ [row], nextId := Suc (nextId db)\<rparr>
                    else db))"

subsection \<open>Security score\<close>

text \<open>
  The dashboard route, lines 18-23 and 92-101: unresolved CRITICAL alerts of the whole
  table, and failed scans since \<open>since\<close>.
\<close>

definition dashboardSecurityScore :: "int \<Rightarrow> database \<Rightarrow> int" where
  "dashboardSecurityScore since db =
     (let criticalAlerts =
            length (filter (\<lambda>a. a_severity a = ''CRITICAL'' \<and> a_resolved a = False) (alerts db));
          failedScans =
            length (filter (\<lambda>s. s_status s = ''failed'' \<and> since \<le> s_timestamp s) (scans db))
      in max 0 (min 100 (100 - int criticalAlerts * 10 - int failedScans * 5)))"

text \<open>
  The security report, \<^verbatim>\<open>src/unnamed/part_008\<close> lines 79-82, on the alerts its query
  returned.
\<close>

definition reportSecurityScore :: "alert list \<Rightarrow> int" where
  "reportSecurityScore as =
     max 0 (min 100
       (100 - int (length (filter (\<lambda>a. a_severity a = ''CRITICAL'' \<and> \<not> a_resolved a) as)) * 10
            - int (length (filter (\<lambda>a. a_severity a = ''HIGH'' \<and> \<not> a_resolved a) as)) * 5))"

text \<open>
  The analytics page, \<^verbatim>\<open>src/src/app/analytics/page.tsx\<close> lines 146-149, on the alerts it
  fetched: resolved alerts count too.
\<close>

definition analyticsSecurityScore :: "alert list \<Rightarrow> int" where
  "analyticsSecurityScore as =
     max 0 (min 100
       (100 - int (length (filter (\<lambda>a. a_severity a = ''CRITICAL'') as)) * 10
            - int (length (filter (\<lambda>a. a_severity a = ''HIGH'') as)) * 5))"

text \<open>
  The formula of the specification, for comparison: the clamp of
  \<open>100 - 10 * unresolvedCriticalCount - 5 * unresolvedHighCount\<close>.
\<close>

definition unresolvedCount :: "string \<Rightarrow> alert list \<Rightarrow> nat" where
  "unresolvedCount sev as = length (filter (\<lambda>a. a_severity a = sev \<and> \<not> a_resolved a) as)"

definition clamp :: "int \<Rightarrow> int \<Rightarrow> int \<Rightarrow> int" where
  "clamp x lo hi = (if x < lo then lo else if hi < x then hi else x)"

definition specSecurityScore :: "alert list \<Rightarrow> int" where
  "specSecurityScore as =
     clamp (100 - 10 * int (unresolvedCount ''CRITICAL'' as) - 5 * int (unresolvedCount ''HIGH'' as)) 0 100"

subsection \<open>Retention Sweeper\<close>


text \<open>
  The day of the month of a local time value (\<^verbatim>\<open>getDate()\<close>), in the proleptic Gregorian
  calendar: the days since the epoch are counted from the first of March of year 0, in
  eras of 400 years.
\<close>

definition dateFromTime :: "int \<Rightarrow> int" where
  "dateFromTime t =
     (let z = t div 86400000 + 719468;
          doe = z mod 146097;
          yoe = (doe - doe div 1460 + doe div 36524 - doe div 146096) div 365;
          doy = doe - (365 * yoe + yoe div 4 - yoe div 100);
          mp = (5 * doy + 2) div 153
      in doy - (153 * mp + 2) div 5 + 1)"

text \<open>
  The local time zone of the server: the offset of local time from UTC in milliseconds,
  at a point in time given in UTC (\<open>tzaOfUTC\<close>) and at one given in local time
  (\<open>tzaOfLocal\<close>). The two differ across a change of the local clock.
\<close>

record zone =
  tzaOfUTC :: "int \<Rightarrow> int"
  tzaOfLocal :: "int \<Rightarrow> int"

text \<open>The integer part of a number, as \<^verbatim>\<open>setDate\<close> takes it of its argument.\<close>

definition toInteger :: "real \<Rightarrow> int" where
  "toInteger x = (if 0 \<le> x then \<lfloor>x\<rfloor> else \<lceil>x\<rceil>)"

text \<open>
  Lines 8-9, \<^verbatim>\<open>cutoffDate.setDate(cutoffDate.getDate() - days)\<close> on the current time \<open>now\<close>;
  \<open>days\<close> is the number of the request. \<^verbatim>\<open>setDate\<close> works on the local time: the day of the
  month is replaced, the time within the day is kept, and the result is taken back to
  UTC with the offset that holds there, so the cutoff is \<open>days\<close> days back on the local
  calendar. A result further than 8640000000000000 ms from the epoch is no date:
  \<open>None\<close> is \<^verbatim>\<open>Invalid Date\<close>.
\<close>

definition cutoffDate :: "zone \<Rightarrow> int \<Rightarrow> real \<Rightarrow> int option" where
  "cutoffDate z now days =
     (let t = now + tzaOfUTC z now;
          dt = toInteger (real_of_int (dateFromTime t) - days);
          newDate = t + (dt - dateFromTime t) * 86400000;
          u = newDate - tzaOfLocal z newDate
      in if 8640000000000000 < \<bar>u\<bar> then None else Some u)"








subsection \<open>Properties of a store\<close>

text \<open>The primary keys of the persisted containers.\<close>

definition containerIds :: "database \<Rightarrow> nat set" where
  "containerIds db = c_id ` set (containers db)"

text \<open>
  Referential integrity: every container reference that is not NULL is the key of a
  persisted container.
\<close>

definition refIntegrity :: "database \<Rightarrow> bool" where
  "refIntegrity db =
     ((\<forall>m \<in> set (metrics db). m_containerId m \<in> containerIds db) \<and>
      (\<forall>s \<in> set (scans db). s_containerId s \<in> containerIds db) \<and>
      (\<forall>l \<in> set (logs db). l_containerId l \<in> containerIds db) \<and>
      (\<forall>a \<in> set (alerts db). case a_containerId a of None \<Rightarrow> True | Some k \<Rightarrow> k \<in> containerIds db))"

text \<open>The runtime ids of the persisted inventory.\<close>

definition runtimeIds :: "database \<Rightarrow> string set" where
  "runtimeIds db = set (map c_containerId (containers db))"

subsection \<open>A small store, for examples\<close>

text \<open>An environment in which no store call throws.\<close>

definition quietEnv :: env where
  "quietEnv = \<lparr>fails = (\<lambda>i. False), thrown = (\<lambda>i. []), clock = (\<lambda>i. 1000000000)\<rparr>"

text \<open>
  One container with one sample, one unresolved alert and one completed scan, and a
  resolved alert of the host.
\<close>

definition exampleDb :: database where
  "exampleDb =
     \<lparr>containers =
        [\<lparr>c_id = 0, c_containerId = ''a'', c_name = ''web'', c_image = ''nginx'',
          c_status = ''running'', c_ports = None, c_createdAt = 0, c_updatedAt = 0\<rparr>],
      metrics =
        [\<lparr>m_id = 1, m_containerId = 0, m_cpuUsage = Num 1, m_memUsage = Num 2,
          m_memLimit = None, m_netIn = Num 0, m_netOut = Num 0, m_diskRead = None,
          m_diskWrite = None, m_timestamp = 10\<rparr>],
      alerts =
        [\<lparr>a_id = 2, a_severity = ''HIGH'', a_message = ''CVE'', a_source = ''trivy'',
          a_containerId = Some 0, a_timestamp = 10, a_resolved = False\<rparr>,
         \<lparr>a_id = 5, a_severity = ''CRITICAL'', a_message = ''root shell'', a_source = ''manual'',
          a_containerId = None, a_timestamp = 20, a_resolved = True\<rparr>],
      scans =
        [\<lparr>s_id = 3, s_containerId = 0, s_scanType = ''trivy'', s_status = ''completed'',
          s_result = None, s_summary = None, s_timestamp = 10, s_duration = None\<rparr>],
      logs = [],
      systemMetrics = [],
      nextId = 6\<rparr>"

text \<open>Another container, as the runtime would report it.\<close>

definition exampleInfo :: containerInfo where
  "exampleInfo =
     \<lparr>ci_id = ''b'', ci_name = ''db'', ci_image = ''postgres'', ci_status = ''stopped'',
      ci_ports = Some [], ci_isRunning = False\<rparr>"

subsection \<open>Magnitude strings\<close>

text \<open>
  The strings of the Unit Parser's contract, \<open><number><optional unit suffix>["i"]["B"]\<close>:
  \<open>ip\<close> the digits before the point, \<open>fp\<close> the digits after it (none when empty),
  \<open>u\<close> the unit letter (none when empty), then the optional marks. \<open>decimal\<close> is the
  number the digits denote, \<open>unitPower\<close> the number of steps of 1024 of a unit letter.
\<close>

definition decimal :: "string \<Rightarrow> string \<Rightarrow> real" where
  "decimal ip fp = real (digitsVal ip) + real (digitsVal fp) / 10 ^ length fp"

definition magnitude :: "string \<Rightarrow> string \<Rightarrow> string \<Rightarrow> bool \<Rightarrow> bool \<Rightarrow> string" where
  "magnitude ip fp u i b =
     ip @ (if fp = [] then [] else CHR ''.'' # fp) @ u @ (if i then ''i'' else []) @ (if b then ''B'' else [])"

definition unitPower :: "string \<Rightarrow> nat" where
  "unitPower u =
     (if u = ''K'' \<or> u = ''k'' then 1
      else if u = ''M'' \<or> u = ''m'' then 2
      else if u = ''G'' \<or> u = ''g'' then 3
      else if u = ''T'' \<or> u = ''t'' then 4
      else 0)"

text \<open>
  The pieces of the first line of the output of the stats query, \<^verbatim>\<open>parts\<close> of line 316, and
  the two numbers read from them at lines 332 and 335.
\<close>

definition partsOf :: "string \<Rightarrow> string list" where
  "partsOf stdout = splitWs (hd (splitOn CHR 0x0A (trim stdout)))"

definition cpuUsageRead :: "string \<Rightarrow> jsnum" where
  "cpuUsageRead stdout = parseFloat (remove1 CHR ''%'' (partsOf stdout ! 1))"

definition memUsageRead :: "string \<Rightarrow> jsnum" where
  "memUsageRead stdout = parseFloat (remove1 CHR ''%'' (partsOf stdout ! 5))"

text \<open>
  The usage fields of every persisted sample are numbers: no NaN in \<^verbatim>\<open>cpuUsage\<close> and
  \<^verbatim>\<open>memUsage\<close> of a container sample, nor in \<^verbatim>\<open>cpuUsage\<close>, \<^verbatim>\<open>ramUsagePercent\<close> and
  \<^verbatim>\<open>diskUsagePercent\<close> of a host sample.
\<close>

definition usageNumeric :: "database \<Rightarrow> bool" where
  "usageNumeric db =
     ((\<forall>m \<in> set (metrics db). \<not> isNaN (m_cpuUsage m) \<and> \<not> isNaN (m_memUsage m)) \<and>
      (\<forall>y \<in> set (systemMetrics db).
         \<not> isNaN (y_cpuUsage y) \<and> \<not> isNaN (y_ramUsagePercent y) \<and> \<not> isNaN (y_diskUsagePercent y)))"

text \<open>
  A host on which \<^verbatim>\<open>/proc/stat\<close> cannot be read, with two CPUs, half of its memory in use
  and a root file system of size 0.
\<close>

definition exampleHost :: hostReadings where
  "exampleHost =
     \<lparr>h_procStat = None, h_load1 = 0.5, h_load5 = 0.5, h_load15 = 0.5, h_cpuCount = 2,
      h_totalMemory = 8589934592, h_freeMemory = 4294967296,
      h_dfOutput = Some ''overlay 0M 0M 0M - /'', h_networkIn = 0, h_networkOut = 0\<rparr>"

text \<open>The stats line of the specification's example.\<close>

definition statsLine :: string where
  "statsLine = ''abc123 0.50% 2.1MiB / 512MiB 0.41% 1.2kB / 800B 3MB / 1MB''"

text \<open>A stats line of twelve tokens that holds no number.\<close>

definition emptyStatsLine :: string where
  "emptyStatsLine = ''abc123 -- -- / -- -- -- / -- -- / --''"

text \<open>
  The specification's stats line broken after its eighth token: a first line of eight
  tokens that ends in a space, and the rest on a second line.
\<close>

definition brokenStats :: string where
  "brokenStats = ''abc123 0.50% 2.1MiB / 512MiB 0.41% 1.2kB / '' @ CHR 0x0A # ''800B 3MB / 1MB''"


text \<open>
  A server on Central European Time in the spring of 2024: one hour ahead of UTC until
  2024-03-31 01:00 UTC, two hours from then on.
\<close>

definition cetZone :: zone where
  "cetZone =
     \<lparr>tzaOfUTC = (\<lambda>t. if t < 1711846800000 then 3600000 else 7200000),
      tzaOfLocal = (\<lambda>t. if t < 1711846800000 + 3600000 then 3600000 else 7200000)\<rparr>"

subsection \<open>Inventory Reconciler of the collector\<close>

text \<open>\<^verbatim>\<open>s.toLowerCase()\<close> and \<^verbatim>\<open>s.includes(sub)\<close>, on ASCII.\<close>

definition toLowerCase :: "string \<Rightarrow> string" where
  "toLowerCase s =
     map (\<lambda>c. case map_of (zip ''ABCDEFGHIJKLMNOPQRSTUVWXYZ'' ''abcdefghijklmnopqrstuvwxyz'') c of
                 None \<Rightarrow> c | Some l \<Rightarrow> l) s"

fun includesStr :: "string \<Rightarrow> string \<Rightarrow> bool" where
  "includesStr [] sub = (sub = [])"
| "includesStr (c # s) sub = (take (length sub) (c # s) = sub \<or> includesStr s sub)"

text \<open>
  One line of the container list, lines 41-52 of the collector: the fields between tabs
  are id, name, image, status and ports. A line without a status field makes
  \<^verbatim>\<open>status.toLowerCase()\<close> throw (\<open>None\<close>); a missing ports field is \<^verbatim>\<open>undefined\<close>.
\<close>

definition containerOfLine :: "string \<Rightarrow> containerInfo option" where
  "containerOfLine line =
     (let fields = splitOn CHR 0x09 line in
      if length fields < 4 then None
      else
        let isRunning = includesStr (toLowerCase (fields ! 3)) ''up''
        in Some \<lparr>ci_id = fields ! 0, ci_name = fields ! 1, ci_image = fields ! 2,
                 ci_status = (if isRunning then ''running'' else ''stopped''),
                 ci_ports = (if 4 < length fields then Some (fields ! 4) else None),
                 ci_isRunning = isRunning\<rparr>)"

text \<open>\<^verbatim>\<open>allList\<close>: the non-empty lines of the trimmed output, each parsed; \<open>None\<close> when one throws.\<close>

definition allListOf :: "string \<Rightarrow> containerInfo list option" where
  "allListOf allContainers =
     (let parsed = map containerOfLine (filter (\<lambda>line. line \<noteq> []) (splitOn CHR 0x0A (trim allContainers)))
      in if None \<in> set parsed then None else Some (map the parsed))"

text \<open>
  The method \<^verbatim>\<open>syncContainersToDatabase()\<close> of the collector, lines 26-95: the two list
  queries (\<open>None\<close> when \<^verbatim>\<open>execAsync\<close> rejects), the parse of the second one, and from line 57
  on the text of the route's function above. Every throw ends in the \<^verbatim>\<open>catch\<close>.
\<close>

definition syncContainersFromRuntime ::
  "env \<Rightarrow> string option \<Rightarrow> string option \<Rightarrow> database \<Rightarrow> database" where
  "syncContainersFromRuntime e runningContainers allContainers db =
     (case runningContainers of
        None \<Rightarrow> db
      | Some running \<Rightarrow>
          (case allContainers of
             None \<Rightarrow> db
           | Some out \<Rightarrow>
               (case allListOf out of
                  None \<Rightarrow> db
                | Some allList \<Rightarrow> syncContainersToDatabase e allList db)))"

section \<open>Theorems\<close>

subsection \<open>Inventory Reconciler and the foreign keys\<close>

lemma upsert_keys:
  "map c_containerId (containers (upsert now ci db)) =
     (if ci_id ci \<in> set (map c_containerId (containers db))
      then map c_containerId (containers db)
      else map c_containerId (containers db) @ [ci_id ci])"
proof -
  have "map c_containerId (map (\<lambda>c. if c_containerId c = k then c\<lparr>c_name := n, c_image := i,
          c_status := s, c_ports := p, c_updatedAt := u\<rparr> else c) xs) = map c_containerId xs"
    for k n i s p u and xs :: "container list"
    by (induction xs) auto
  then show ?thesis by (simp add: upsert_def)
qed

lemma runtimeIds_upsert: "runtimeIds (upsert now ci db) = insert (ci_id ci) (runtimeIds db)"
  unfolding runtimeIds_def upsert_keys by auto

lemma upsertAll_ok:
  "(\<forall>j < length cs. \<not> fails e (i + j)) \<Longrightarrow>
   fst (upsertAll e i cs db) \<and>
   runtimeIds (snd (upsertAll e i cs db)) = runtimeIds db \<union> set (map ci_id cs)"
proof (induction cs arbitrary: i db)
  case Nil
  then show ?case by simp
next
  case (Cons c cs)
  have nf: "\<not> fails e i" using Cons.prems by force
  have rest: "\<forall>j < length cs. \<not> fails e (Suc i + j)"
    using Cons.prems by force
  from Cons.IH[OF rest, of "upsert (clock e i) c db"] nf
  show ?case by (auto simp: runtimeIds_upsert)
qed

lemma runtimeIds_delete:
  "runtimeIds (deleteContainersWhere p db) = c_containerId ` {c \<in> set (containers db). \<not> p c}"
  by (auto simp: runtimeIds_def deleteContainersWhere_def Let_def)

lemma sync_converges:
  assumes "cs \<noteq> []" and "\<forall>i \<le> length cs. \<not> fails e i"
  shows "runtimeIds (syncContainersToDatabase e cs db) = set (map ci_id cs)"
proof -
  have "\<forall>j < length cs. \<not> fails e (0 + j)" using assms(2) by simp
  from upsertAll_ok[OF this, of db]
  obtain db1 where u: "upsertAll e 0 cs db = (True, db1)"
    and r: "runtimeIds db1 = runtimeIds db \<union> set (map ci_id cs)"
    by (cases "upsertAll e 0 cs db") auto
  have nf: "\<not> fails e (length cs)" using assms(2) by simp
  have "syncContainersToDatabase e cs db =
        deleteContainersWhere (\<lambda>c. c_containerId c \<notin> set (map ci_id cs)) db1"
    using u nf assms(1) by (simp add: syncContainersToDatabase_def)
  moreover have "runtimeIds (deleteContainersWhere (\<lambda>c. c_containerId c \<notin> set (map ci_id cs)) db1)
        = set (map ci_id cs)"
  proof -
    have "c_containerId ` {c \<in> set (containers db1). \<not> c_containerId c \<notin> set (map ci_id cs)}
          = runtimeIds db1 \<inter> set (map ci_id cs)"
      by (auto simp: runtimeIds_def)
    then show ?thesis using r unfolding runtimeIds_delete by auto
  qed
  ultimately show ?thesis by simp
qed

lemma containerIds_upsert: "containerIds db \<subseteq> containerIds (upsert now ci db)"
proof -
  have "map c_id (map (\<lambda>c. if c_containerId c = k then c\<lparr>c_name := n, c_image := i,
          c_status := s, c_ports := p, c_updatedAt := u\<rparr> else c) xs) = map c_id xs"
    for k n i s p u and xs :: "container list"
    by (induction xs) auto
  then have "map c_id (containers (upsert now ci db)) =
        (if ci_id ci \<in> set (map c_containerId (containers db))
         then map c_id (containers db) else map c_id (containers db) @ [nextId db])"
    by (simp add: upsert_def)
  then have "set (map c_id (containers db)) \<subseteq> set (map c_id (containers (upsert now ci db)))"
    by (simp split: if_splits add: subset_insertI)
  then show ?thesis by (simp add: containerIds_def)
qed

lemma upsert_rows:
  "metrics (upsert now ci db) = metrics db" "scans (upsert now ci db) = scans db"
  "logs (upsert now ci db) = logs db" "alerts (upsert now ci db) = alerts db"
  by (simp_all add: upsert_def)

lemma refIntegrity_upsert: "refIntegrity db \<Longrightarrow> refIntegrity (upsert now ci db)"
  using containerIds_upsert[of db now ci]
  unfolding refIntegrity_def upsert_rows
  by (auto split: option.splits)

lemma refIntegrity_upsertAll: "refIntegrity db \<Longrightarrow> refIntegrity (snd (upsertAll e i cs db))"
  by (induction cs arbitrary: i db) (auto simp: refIntegrity_upsert)

lemma containerIds_delete:
  "k \<in> containerIds db \<Longrightarrow> k \<notin> set (deletedIds p db) \<Longrightarrow> k \<in> containerIds (deleteContainersWhere p db)"
  by (auto simp: containerIds_def deletedIds_def deleteContainersWhere_def Let_def)

lemma refIntegrity_delete:
  assumes "refIntegrity db"
  shows "refIntegrity (deleteContainersWhere p db)"
proof -
  let ?db = "deleteContainersWhere p db"
  let ?gone = "set (deletedIds p db)"
  have m: "\<forall>m \<in> set (metrics ?db). m_containerId m \<in> containerIds ?db"
  proof
    fix m assume "m \<in> set (metrics ?db)"
    then have "m \<in> set (metrics db)" "m_containerId m \<notin> ?gone"
      by (auto simp: deleteContainersWhere_def Let_def)
    with assms show "m_containerId m \<in> containerIds ?db"
      by (auto simp: refIntegrity_def intro: containerIds_delete)
  qed
  have s: "\<forall>s \<in> set (scans ?db). s_containerId s \<in> containerIds ?db"
  proof
    fix s assume "s \<in> set (scans ?db)"
    then have "s \<in> set (scans db)" "s_containerId s \<notin> ?gone"
      by (auto simp: deleteContainersWhere_def Let_def)
    with assms show "s_containerId s \<in> containerIds ?db"
      by (auto simp: refIntegrity_def intro: containerIds_delete)
  qed
  have l: "\<forall>l \<in> set (logs ?db). l_containerId l \<in> containerIds ?db"
  proof
    fix l assume "l \<in> set (logs ?db)"
    then have "l \<in> set (logs db)" "l_containerId l \<notin> ?gone"
      by (auto simp: deleteContainersWhere_def Let_def)
    with assms show "l_containerId l \<in> containerIds ?db"
      by (auto simp: refIntegrity_def intro: containerIds_delete)
  qed
  have a: "\<forall>a \<in> set (alerts ?db). case a_containerId a of None \<Rightarrow> True | Some k \<Rightarrow> k \<in> containerIds ?db"
  proof
    fix a assume "a \<in> set (alerts ?db)"
    then obtain b where b: "b \<in> set (alerts db)" and ab: "a = setNull (deletedIds p db) b"
      by (auto simp: deleteContainersWhere_def Let_def)
    show "case a_containerId a of None \<Rightarrow> True | Some k \<Rightarrow> k \<in> containerIds ?db"
    proof (cases "a_containerId a")
      case None
      then show ?thesis by simp
    next
      case (Some k)
      with ab have "a_containerId b = Some k" "k \<notin> ?gone"
        by (auto simp: setNull_def split: option.splits if_splits)
      moreover from this b assms have "k \<in> containerIds db"
        by (force simp: refIntegrity_def)
      ultimately show ?thesis using Some by (simp add: containerIds_delete)
    qed
  qed
  from m s l a show ?thesis unfolding refIntegrity_def by blast
qed

lemma refIntegrity_sync:
  assumes "refIntegrity db"
  shows "refIntegrity (syncContainersToDatabase e cs db)"
proof -
  obtain b db1 where u: "upsertAll e 0 cs db = (b, db1)" by (cases "upsertAll e 0 cs db")
  with refIntegrity_upsertAll[OF assms, of e 0 cs] have "refIntegrity db1" by simp
  with u show ?thesis
    by (cases b) (simp_all add: syncContainersToDatabase_def refIntegrity_delete)
qed

text \<open>
  C1, as the schema has it. For every deletion of container rows (\<open>p\<close> selects the rows
  to delete; the Inventory Reconciler deletes through the same operation): every
  \<^verbatim>\<open>ContainerMetric\<close> and every \<^verbatim>\<open>Scan\<close> row that references a deleted container is deleted in
  the same operation, and the rows that reference a remaining container stay; no \<^verbatim>\<open>Alert\<close>
  row is deleted, but no remaining alert references a deleted container (the reference
  is set to NULL); and a store in which every reference names a persisted container is
  again such a store after the deletion, and after a run of the reconciler.
\<close>

theorem C1_delete_cascade:
  "(\<forall>m \<in> set (metrics (deleteContainersWhere p db)). m_containerId m \<notin> set (deletedIds p db)) \<and>
   (\<forall>s \<in> set (scans (deleteContainersWhere p db)). s_containerId s \<notin> set (deletedIds p db)) \<and>
   (\<forall>m \<in> set (metrics db). m_containerId m \<notin> set (deletedIds p db) \<longrightarrow>
        m \<in> set (metrics (deleteContainersWhere p db))) \<and>
   (\<forall>s \<in> set (scans db). s_containerId s \<notin> set (deletedIds p db) \<longrightarrow>
        s \<in> set (scans (deleteContainersWhere p db))) \<and>
   map a_id (alerts (deleteContainersWhere p db)) = map a_id (alerts db) \<and>
   (\<forall>a \<in> set (alerts (deleteContainersWhere p db)).
        \<forall>k. a_containerId a = Some k \<longrightarrow> k \<notin> set (deletedIds p db)) \<and>
   (refIntegrity db \<longrightarrow>
        refIntegrity (deleteContainersWhere p db) \<and>
        refIntegrity (syncContainersToDatabase e cs db))"
proof -
  have ids: "map a_id (map (setNull g) xs) = map a_id xs" for g xs
    by (induction xs) (auto simp: setNull_def split: option.splits)
  have nul: "\<forall>a \<in> set (map (setNull g) xs). \<forall>k. a_containerId a = Some k \<longrightarrow> k \<notin> set g" for g xs
    by (auto simp: setNull_def split: option.splits if_splits)
  show ?thesis
    using ids[of "deletedIds p db" "alerts db"] nul[of "deletedIds p db" "alerts db"]
    by (simp add: deleteContainersWhere_def Let_def
          refIntegrity_delete[unfolded deleteContainersWhere_def Let_def]
          refIntegrity_sync)
qed

theorem C1_delete_cascade_witness:
  "refIntegrity exampleDb \<and>
   refIntegrity (syncContainersToDatabase quietEnv [exampleInfo] exampleDb) \<and>
   metrics (deleteContainersWhere (\<lambda>c. c_containerId c = ''a'') exampleDb) = [] \<and>
   scans (deleteContainersWhere (\<lambda>c. c_containerId c = ''a'') exampleDb) = [] \<and>
   map a_id (alerts (deleteContainersWhere (\<lambda>c. c_containerId c = ''a'') exampleDb)) = [2, 5]"
  using C1_delete_cascade[of "\<lambda>c. c_containerId c = ''a''" exampleDb quietEnv "[exampleInfo]"]
  by (simp add: refIntegrity_def containerIds_def exampleDb_def deleteContainersWhere_def
        deletedIds_def setNull_def Let_def)

text \<open>
  C1 as stated fails for alerts: the reconciler deletes container \<open>a\<close> (it is no longer
  observed), its sample goes with it, and its alert is still there, without a container.
\<close>

theorem C1_alert_kept_counterexample:
  "map c_containerId (containers (syncContainersToDatabase quietEnv [exampleInfo] exampleDb)) = [''b''] \<and>
   metrics (syncContainersToDatabase quietEnv [exampleInfo] exampleDb) = [] \<and>
   alerts (syncContainersToDatabase quietEnv [exampleInfo] exampleDb) =
     [\<lparr>a_id = 2, a_severity = ''HIGH'', a_message = ''CVE'', a_source = ''trivy'',
       a_containerId = None, a_timestamp = 10, a_resolved = False\<rparr>,
      \<lparr>a_id = 5, a_severity = ''CRITICAL'', a_message = ''root shell'', a_source = ''manual'',
       a_containerId = None, a_timestamp = 20, a_resolved = True\<rparr>]"
  by (simp add: syncContainersToDatabase_def quietEnv_def exampleDb_def exampleInfo_def upsert_def
        deleteContainersWhere_def deletedIds_def setNull_def portsOrNull_def)

text \<open>
  C3, with the guard of the delete phase. For every store, every sequence \<open>runs\<close> of
  earlier reconciler runs (each with its snapshot and its environment) and every snapshot
  \<open>cs\<close>: when \<open>cs\<close> is not empty and no store call of the run against it throws, the
  runtime ids of the persisted inventory after that run are exactly the ids of \<open>cs\<close>;
  after a run against an empty snapshot they are what they were before it. The first part
  holds as well for the collector's reconciler, \<open>cs\<close> being the list it parses from the
  runtime's output.
\<close>

theorem C3_sync_converges:
  "(cs \<noteq> [] \<and> (\<forall>i \<le> length cs. \<not> fails e i) \<longrightarrow>
      runtimeIds (foldl (\<lambda>d r. syncContainersToDatabase (fst r) (snd r) d) db (runs @ [(e, cs)]))
        = set (map ci_id cs)) \<and>
   runtimeIds (foldl (\<lambda>d r. syncContainersToDatabase (fst r) (snd r) d) db (runs @ [(e, [])]))
     = runtimeIds (foldl (\<lambda>d r. syncContainersToDatabase (fst r) (snd r) d) db runs) \<and>
   (allListOf out = Some cs \<and> cs \<noteq> [] \<and> (\<forall>i \<le> length cs. \<not> fails e i) \<longrightarrow>
      runtimeIds (syncContainersFromRuntime e (Some running) (Some out) db) = set (map ci_id cs))"
proof (intro conjI impI)
  let ?before = "foldl (\<lambda>d r. syncContainersToDatabase (fst r) (snd r) d) db runs"
  assume "cs \<noteq> [] \<and> (\<forall>i \<le> length cs. \<not> fails e i)"
  then have "runtimeIds (syncContainersToDatabase e cs ?before) = set (map ci_id cs)"
    by (simp add: sync_converges)
  then show "runtimeIds (foldl (\<lambda>d r. syncContainersToDatabase (fst r) (snd r) d) db (runs @ [(e, cs)]))
        = set (map ci_id cs)"
    by simp
next
  show "runtimeIds (foldl (\<lambda>d r. syncContainersToDatabase (fst r) (snd r) d) db (runs @ [(e, [])]))
     = runtimeIds (foldl (\<lambda>d r. syncContainersToDatabase (fst r) (snd r) d) db runs)"
    by (simp add: syncContainersToDatabase_def)
next
  assume "allListOf out = Some cs \<and> cs \<noteq> [] \<and> (\<forall>i \<le> length cs. \<not> fails e i)"
  then show "runtimeIds (syncContainersFromRuntime e (Some running) (Some out) db) = set (map ci_id cs)"
    by (simp add: syncContainersFromRuntime_def sync_converges)
qed

theorem C3_sync_converges_witness:
  "[exampleInfo] \<noteq> [] \<and> \<not> fails quietEnv 0 \<and> \<not> fails quietEnv 1 \<and>
   runtimeIds (foldl (\<lambda>d r. syncContainersToDatabase (fst r) (snd r) d) exampleDb
      ([(quietEnv, [])] @ [(quietEnv, [exampleInfo])])) = {''b''} \<and>
   runtimeIds (foldl (\<lambda>d r. syncContainersToDatabase (fst r) (snd r) d) exampleDb
      ([] @ [(quietEnv, [])])) = {''a''}"
  using C3_sync_converges[of "[exampleInfo]" quietEnv exampleDb "[(quietEnv, [])]"]
    C3_sync_converges[of "[exampleInfo]" quietEnv exampleDb "[]"]
  by (simp add: quietEnv_def exampleInfo_def runtimeIds_def exampleDb_def
        syncContainersToDatabase_def)

text \<open>
  C3 as stated fails for an empty snapshot: the reconciler deletes nothing then, so the
  inventory keeps container \<open>a\<close> while the snapshot has no id.
\<close>

theorem C3_empty_snapshot_counterexample:
  "runtimeIds (syncContainersToDatabase quietEnv [] exampleDb) = {''a''} \<and>
   set (map ci_id ([] :: containerInfo list)) = {} \<and>
   runtimeIds (syncContainersToDatabase quietEnv [] exampleDb) \<noteq> set (map ci_id ([] :: containerInfo list))"
  by (simp add: syncContainersToDatabase_def runtimeIds_def exampleDb_def)

lemma allListOf_blank: "trim out = [] \<Longrightarrow> allListOf out = Some []"
  by (simp add: allListOf_def)

lemma syncFromRuntime_blank:
  "trim out = [] \<Longrightarrow> syncContainersFromRuntime e r (Some out) db = db"
  by (simp add: syncContainersFromRuntime_def allListOf_blank syncContainersToDatabase_def
        split: option.splits)

text \<open>
  C5. When the Inventory Reconciler is given an empty observed container set, it performs
  zero deletes: the store after the call is the store before it, so every persisted
  ContainerRecord (and every other row) is left as it was. This holds whatever the store
  calls would have done, since none is made; and it holds for the collector's own
  reconciler whenever the runtime's list is empty or blank.
\<close>

theorem C5_sync_empty_unchanged:
  "syncContainersToDatabase e [] db = db \<and>
   (trim out = [] \<longrightarrow> syncContainersFromRuntime e r (Some out) db = db)"
  by (simp add: syncContainersToDatabase_def syncFromRuntime_blank)

theorem C5_sync_empty_unchanged_witness:
  "trim [CHR 0x0A] = [] \<and>
   syncContainersToDatabase quietEnv [] exampleDb = exampleDb \<and>
   syncContainersFromRuntime quietEnv (Some []) (Some [CHR 0x0A]) exampleDb = exampleDb"
  using C5_sync_empty_unchanged[of quietEnv exampleDb "[CHR 0x0A]" "Some []"]
  by (simp add: trim_def isSpace_def)

subsection \<open>Unit Parser\<close>

lemma overflowBound_large: "2 ^ 1000 \<le> overflowBound"
  by (simp add: overflowBound_def)

lemma toDouble_Num: "\<bar>v\<bar> < 2 ^ 1000 \<Longrightarrow> toDouble v = Num v"
  using overflowBound_large by (auto simp: toDouble_def)

lemma jsMul_toDouble:
  assumes "0 \<le> v" and "1 \<le> k"
  shows "jsMul (toDouble v) k = toDouble (v * k)"
proof (cases "overflowBound \<le> v")
  case True
  have "v * 1 \<le> v * k" using assms by (intro mult_left_mono) simp_all
  then have "overflowBound \<le> v * k" using True by simp
  then show ?thesis using True by (simp add: toDouble_def jsMul_def)
next
  case False
  have "0 < overflowBound" using overflowBound_large by (simp add: order.strict_trans2[of 0 "2 ^ 1000"])
  then have "toDouble v = Num v" using False assms(1) by (simp add: toDouble_def)
  then show ?thesis by (simp add: jsMul_def)
qed

lemma digit_facts:
  assumes "isDigit c"
  shows "\<not> isSpace c" "c \<noteq> CHR ''-''" "c \<noteq> CHR ''+''" "c \<noteq> CHR ''I''" "c \<noteq> CHR ''.''"
    "\<not> isUnit c" "c \<noteq> CHR ''i''" "c \<noteq> CHR ''B''"
  using assms by (auto simp: isDigit_def isSpace_def isUnit_def)

lemma takeWhile_digits:
  assumes "\<forall>c \<in> set ip. isDigit c" and "r = [] \<or> \<not> isDigit (hd r)"
  shows "takeWhile isDigit (ip @ r) = ip" "dropWhile isDigit (ip @ r) = r"
proof -
  have t: "takeWhile isDigit r = []" and d: "dropWhile isDigit r = r"
    using assms(2) by (cases r; simp)+
  show "takeWhile isDigit (ip @ r) = ip" using assms(1) t by (simp add: takeWhile_append2)
  show "dropWhile isDigit (ip @ r) = r" using assms(1) d by (simp add: dropWhile_append2)
qed

lemma unitMatch_no_digit: "\<forall>c \<in> set s. \<not> isDigit c \<Longrightarrow> unitMatch s = None"
  by (induction s) auto

lemma parseFloat_decimal:
  assumes ip: "ip \<noteq> []" "\<forall>c \<in> set ip. isDigit c" and fp: "\<forall>c \<in> set fp. isDigit c"
  shows "parseFloat (ip @ (if fp = [] then [] else CHR ''.'' # fp)) = toDouble (decimal ip fp)"
proof -
  obtain d ds where dd: "ip = d # ds" using ip(1) by (cases ip) auto
  have dg: "isDigit d" using ip(2) dd by simp
  let ?s = "ip @ (if fp = [] then [] else CHR ''.'' # fp)"
  have sg: "signOf (dropWhile isSpace ?s) = (False, ?s)"
    using digit_facts[OF dg] by (simp add: dd signOf_def)
  have inf: "take 8 ?s \<noteq> ''Infinity''"
    using digit_facts(4)[OF dg] by (simp add: dd)
  have tk: "takeWhile isDigit ?s = ip" and dr: "dropWhile isDigit ?s = (if fp = [] then [] else CHR ''.'' # fp)"
    using takeWhile_digits[OF ip(2), of "if fp = [] then [] else CHR ''.'' # fp"]
    by (simp_all add: isDigit_def)
  have tf: "takeWhile isDigit fp = fp" and df: "dropWhile isDigit fp = []"
    using fp by simp_all
  show ?thesis
    unfolding parseFloat_def sg
    using inf ip(1)
    by (simp add: Let_def tk dr tf df exponentOf_def pow10_def decimal_def digitsVal_def)
qed

lemma numberAt_decimal:
  assumes ip: "\<forall>c \<in> set ip. isDigit c" and fp: "\<forall>c \<in> set fp. isDigit c"
    and r: "r = [] \<or> (\<not> isDigit (hd r) \<and> hd r \<noteq> CHR ''.'')"
  shows "numberAt (ip @ (if fp = [] then [] else CHR ''.'' # fp) @ r) =
           (ip @ (if fp = [] then [] else CHR ''.'' # fp), r)"
proof (cases "fp = []")
  case True
  have a: "takeWhile isDigit (ip @ r) = ip" "dropWhile isDigit (ip @ r) = r"
    using takeWhile_digits[OF ip, of r] r by auto
  have "numberAt (ip @ r) = (ip, r)"
    unfolding numberAt_def Let_def a using r by (auto split: list.split)
  then show ?thesis using True by simp
next
  case False
  have a: "takeWhile isDigit (ip @ CHR ''.'' # fp @ r) = ip"
    "dropWhile isDigit (ip @ CHR ''.'' # fp @ r) = CHR ''.'' # fp @ r"
    using takeWhile_digits[OF ip, of "CHR ''.'' # fp @ r"] by (simp_all add: isDigit_def)
  have b: "takeWhile isDigit (fp @ r) = fp" "dropWhile isDigit (fp @ r) = r"
    using takeWhile_digits[OF fp, of r] r by auto
  show ?thesis using False by (simp add: numberAt_def Let_def a b)
qed

lemma unitMatch_magnitude:
  assumes ip: "ip \<noteq> []" "\<forall>c \<in> set ip. isDigit c" and fp: "\<forall>c \<in> set fp. isDigit c"
    and r: "r = [] \<or> (\<not> isDigit (hd r) \<and> hd r \<noteq> CHR ''.'')"
  shows "unitMatch (ip @ (if fp = [] then [] else CHR ''.'' # fp) @ r) =
           Some (ip @ (if fp = [] then [] else CHR ''.'' # fp), unitAt r)"
proof -
  obtain d ds where dd: "ip = d # ds" using ip(1) by (cases ip) auto
  have dg: "isDigit d" using ip(2) dd by simp
  have "unitMatch (ip @ (if fp = [] then [] else CHR ''.'' # fp) @ r) =
        (let (n, r') = numberAt (ip @ (if fp = [] then [] else CHR ''.'' # fp) @ r) in Some (n, unitAt r'))"
    using dg by (simp add: dd)
  then show ?thesis using numberAt_decimal[OF ip(2) fp r] by simp
qed

lemma toUpperCase_unit:
  "toUpperCase [] = []"
  "toUpperCase ''K'' = ''K''" "toUpperCase ''k'' = ''K''"
  "toUpperCase ''M'' = ''M''" "toUpperCase ''m'' = ''M''"
  "toUpperCase ''G'' = ''G''" "toUpperCase ''g'' = ''G''"
  "toUpperCase ''T'' = ''T''" "toUpperCase ''t'' = ''T''"
  by (simp_all add: toUpperCase_def)

lemma decimal_nonneg: "0 \<le> decimal ip fp"
  by (simp add: decimal_def)

lemma parseBytes_magnitude:
  assumes ip: "ip \<noteq> []" "\<forall>c \<in> set ip. isDigit c" and fp: "\<forall>c \<in> set fp. isDigit c"
    and u: "length u \<le> 1" "\<forall>c \<in> set u. isUnit c"
  shows "parseBytes (magnitude ip fp u i b) = toDouble (decimal ip fp * 1024 ^ unitPower u)"
proof -
  let ?n = "ip @ (if fp = [] then [] else CHR ''.'' # fp)"
  let ?r = "u @ (if i then ''i'' else []) @ (if b then ''B'' else [])"
  let ?v = "decimal ip fp"
  have uc: "u = [] \<or> (\<exists>c. u = [c] \<and> isUnit c)"
    using u by (cases u) auto
  have nd: "\<not> isDigit c \<and> c \<noteq> CHR ''.'' \<and> c \<noteq> CHR ''i'' \<and> c \<noteq> CHR ''B''" if "isUnit c" for c
    using that by (auto simp: isUnit_def isDigit_def)
  have r: "?r = [] \<or> (\<not> isDigit (hd ?r) \<and> hd ?r \<noteq> CHR ''.'')"
    using uc nd by (auto simp: isDigit_def)
  have ua: "unitAt ?r = u"
    using uc by (auto simp: unitAt_def isUnit_def)
  have m: "unitMatch (magnitude ip fp u i b) = Some (?n, u)"
    using unitMatch_magnitude[OF ip fp r] ua by (simp add: magnitude_def)
  have ne: "magnitude ip fp u i b \<noteq> []" using ip(1) by (simp add: magnitude_def)
  have pf: "parseFloat ?n = toDouble ?v" by (rule parseFloat_decimal[OF ip fp])
  have pb: "parseBytes (magnitude ip fp u i b) =
        (let unit = toUpperCase u in
           if unit = ''K'' \<or> unit = ''KB'' then jsMul (toDouble ?v) 1024
           else if unit = ''M'' \<or> unit = ''MB'' then jsMul (toDouble ?v) (1024 * 1024)
           else if unit = ''G'' \<or> unit = ''GB'' then jsMul (toDouble ?v) (1024 * 1024 * 1024)
           else if unit = ''T'' \<or> unit = ''TB'' then jsMul (toDouble ?v) (1024 * 1024 * 1024 * 1024)
           else toDouble ?v)"
    unfolding parseBytes_def m using ne pf by (simp add: Let_def)
  have mul: "jsMul (toDouble ?v) k = toDouble (?v * k)" if "1 \<le> k" for k
    using jsMul_toDouble[OF decimal_nonneg that] .
  from uc show ?thesis
  proof
    assume "u = []"
    then show ?thesis unfolding pb by (simp add: toUpperCase_unit unitPower_def)
  next
    assume "\<exists>c. u = [c] \<and> isUnit c"
    then obtain c where c: "u = [c]" and "isUnit c" by blast
    then have "c = CHR ''K'' \<or> c = CHR ''k'' \<or> c = CHR ''M'' \<or> c = CHR ''m'' \<or>
               c = CHR ''G'' \<or> c = CHR ''g'' \<or> c = CHR ''T'' \<or> c = CHR ''t''"
      by (auto simp: isUnit_def)
    then show ?thesis using pb
      by (elim disjE) (simp_all add: c toUpperCase_unit unitPower_def mul)
  qed
qed

lemmas parse_defs = parseBytes_def isDigit_def numberAt_def unitAt_def isUnit_def toUpperCase_def
  parseFloat_def signOf_def isSpace_def digitsVal_def digitVal_def exponentOf_def pow10_def jsMul_def
  toDouble_Num

lemma parseBytes_examples:
  "parseBytes ''2.098MiB'' = Num (2.098 * 1024 * 1024)"
  "parseBytes ''14.3MB'' = Num (14.3 * 1024 * 1024)"
  "parseBytes [] = Num 0"
  "parseBytes ''garbage'' = Num 0"
  by (simp_all add: parse_defs)

text \<open>
  C7, as the code has it. \<^verbatim>\<open>parseBytes\<close> reads a magnitude string (digits, an optional
  fraction, an optional unit letter K, M, G or T in either case, an optional \<open>i\<close>, an
  optional \<open>B\<close>) as the number times 1024 to the power of the unit's step, whether or not
  the \<open>i\<close> is there, the product being a JavaScript number; so \<open>2.098MiB\<close> is
  2.098 * 1024 * 1024 and \<open>14.3MB\<close> is 14.3 * 1024 * 1024. The empty string, \<open>garbage\<close>
  and every string without a decimal digit give 0. \<^verbatim>\<open>parseBytes\<close> is a function of the
  string alone, defined on every string: lines 424-448 have no throw.
\<close>

theorem C7_parseBytes:
  "(ip \<noteq> [] \<and> (\<forall>c \<in> set ip. isDigit c) \<and> (\<forall>c \<in> set fp. isDigit c) \<and>
      length u \<le> 1 \<and> (\<forall>c \<in> set u. isUnit c) \<longrightarrow>
      parseBytes (magnitude ip fp u i b) = toDouble (decimal ip fp * 1024 ^ unitPower u)) \<and>
   parseBytes ''2.098MiB'' = Num (2.098 * 1024 * 1024) \<and>
   parseBytes ''14.3MB'' = Num (14.3 * 1024 * 1024) \<and>
   parseBytes [] = Num 0 \<and>
   parseBytes ''garbage'' = Num 0 \<and>
   ((\<forall>c \<in> set s. \<not> isDigit c) \<longrightarrow> parseBytes s = Num 0)"
proof (intro conjI impI)
  assume "ip \<noteq> [] \<and> (\<forall>c \<in> set ip. isDigit c) \<and> (\<forall>c \<in> set fp. isDigit c) \<and>
      length u \<le> 1 \<and> (\<forall>c \<in> set u. isUnit c)"
  then show "parseBytes (magnitude ip fp u i b) = toDouble (decimal ip fp * 1024 ^ unitPower u)"
    using parseBytes_magnitude[of ip fp u i b] by blast
next
  assume "\<forall>c \<in> set s. \<not> isDigit c"
  then have "unitMatch s = None" by (rule unitMatch_no_digit)
  then show "parseBytes s = Num 0" by (simp add: parseBytes_def)
qed (rule parseBytes_examples)+

theorem C7_parseBytes_witness:
  "magnitude ''2'' ''098'' ''M'' True True = ''2.098MiB'' \<and>
   parseBytes ''2.098MiB'' = Num (decimal ''2'' ''098'' * 1024 ^ 2) \<and>
   decimal ''2'' ''098'' = 2.098 \<and>
   parseBytes ''kB'' = Num 0"
  using C7_parseBytes[of "''2''" "''098''" "''M''" True True "''kB''"]
  by (simp add: magnitude_def isDigit_def isUnit_def unitPower_def decimal_def digitsVal_def digitVal_def
        toDouble_Num)

text \<open>
  C7 as stated fails for input that is not a magnitude string but contains a digit: the
  pattern is searched anywhere in the string, so \<open>abc123\<close> gives 123 and \<open>5PB\<close> (a
  unit that is not recognized) gives 5, not 0.
\<close>

theorem C7_unrecognized_counterexample:
  "parseBytes ''abc123'' = Num 123 \<and> parseBytes ''5PB'' = Num 5 \<and>
   parseBytes ''abc123'' \<noteq> Num 0 \<and> parseBytes ''5PB'' \<noteq> Num 0"
  by (simp add: parse_defs)

subsection \<open>Security score\<close>

lemma clamp_max_min: "max 0 (min 100 x) = clamp x 0 100"
  by (simp add: clamp_def max_def min_def)

text \<open>
  C2, as the code has it. The score of the security report is the formula of the
  specification on the alerts of the report: the clamp to 0..100 of 100 minus 10 for each
  unresolved CRITICAL alert and 5 for each unresolved HIGH alert. The score of the
  dashboard takes 10 for each unresolved CRITICAL alert and 5 for each failed scan since
  the start of its window, and counts no HIGH alert. The score of the analytics page takes
  10 for each CRITICAL and 5 for each HIGH alert it fetched, resolved or not.
\<close>

theorem C2_security_scores:
  "reportSecurityScore as = specSecurityScore as \<and>
   dashboardSecurityScore since db =
     clamp (100 - 10 * int (unresolvedCount ''CRITICAL'' (alerts db))
                - 5 * int (length (filter (\<lambda>s. s_status s = ''failed'' \<and> since \<le> s_timestamp s) (scans db))))
           0 100 \<and>
   analyticsSecurityScore as =
     clamp (100 - 10 * int (length (filter (\<lambda>a. a_severity a = ''CRITICAL'') as))
                - 5 * int (length (filter (\<lambda>a. a_severity a = ''HIGH'') as))) 0 100"
  unfolding reportSecurityScore_def specSecurityScore_def dashboardSecurityScore_def
    analyticsSecurityScore_def unresolvedCount_def Let_def clamp_max_min
  by (simp only: mult.commute simp_thms)

text \<open>
  C2 as stated fails for the dashboard: with one unresolved HIGH alert and no failed scan
  its score is 100, and the formula gives 95.
\<close>

theorem C2_dashboard_counterexample:
  "dashboardSecurityScore 0 exampleDb = 100 \<and>
   specSecurityScore (alerts exampleDb) = 95 \<and>
   dashboardSecurityScore 0 exampleDb \<noteq> specSecurityScore (alerts exampleDb)"
  by (simp add: specSecurityScore_def dashboardSecurityScore_def exampleDb_def
        unresolvedCount_def clamp_def)

subsection \<open>Retention Sweeper\<close>
















text \<open>
  Across a change of the local clock the cutoff is not a multiple of 24 hours back: on
  2024-04-01 at 12:00 UTC, seven days back on the Central European calendar is
  2024-03-25 at 13:00 UTC, seven days less one hour.
\<close>

lemma cutoffDate_clock_change:
  "cutoffDate cetZone 1711972800000 7 = Some (1711972800000 - 7 * 86400000 + 3600000)"
  unfolding cutoffDate_def dateFromTime_def Let_def
  by (simp add: cetZone_def toInteger_def)



subsection \<open>Runtime Stats Parser and the collector\<close>

lemma statsLine_parts:
  "splitWs statsLine =
     [''abc123'', ''0.50%'', ''2.1MiB'', ''/'', ''512MiB'', ''0.41%'', ''1.2kB'', ''/'', ''800B'',
      ''3MB'', ''/'', ''1MB'']"
  by (simp add: statsLine_def isSpace_def)

lemma statsLine_line: "trim statsLine = statsLine" "hd (splitOn CHR 0x0A statsLine) = statsLine"
  by (simp_all add: statsLine_def trim_def isSpace_def)

lemma statsLine_fields:
  "parseFloat ''0.50'' = Num 0.5"
  "parseFloat ''0.41'' = Num 0.41"
  "memLimitMB ''2.1MiB / 512MiB'' = Some (Num 512)"
  "ioMatch ''1.2kB / 800B'' = Some (''1.2k'', ''800'')"
  "ioMatch ''3MB / 1MB'' = Some (''3M'', ''1M'')"
  "parseBytes ''1.2k'' = Num (1.2 * 1024)"
  "parseBytes ''800'' = Num 800"
  "parseBytes ''3M'' = Num (3 * 1024 * 1024)"
  "parseBytes ''1M'' = Num (1024 * 1024)"
  by (simp_all add: parse_defs memLimitMB_def trim_def ioMatch.simps ioAt_def quantityAt_def
        isNumCh_def optCh_def jsDiv_def)

lemma statsLine_metricData:
  "metricDataOf k statsLine =
     Some \<lparr>d_containerId = k, d_cpuUsage = Num 0.5, d_memUsage = Num 0.41,
           d_memLimit = Some (Num 512), d_netIn = Num (1.2 * 1024), d_netOut = Num 800,
           d_diskRead = Some (Num (3 * 1024 * 1024)), d_diskWrite = Some (Num (1024 * 1024))\<rparr>"
proof -
  have ne: "statsLine \<noteq> []" by (simp add: statsLine_def)
  show ?thesis
    unfolding metricDataOf_def statsLine_line statsLine_parts Let_def
    using ne by (simp add: part_def statsLine_fields isNaN_def del: ioMatch.simps)
qed

lemma findUnique_example: "findUnique ''a'' exampleDb = Some (hd (containers exampleDb))"
  by (simp add: findUnique_def exampleDb_def)

lemma collect_ok:
  assumes "findUnique cid db = Some c" and "\<not> fails e 0" and "\<not> fails e 1"
    and "metricDataOf (c_id c) stdout = Some d" and "metricAccepted d"
  shows "collectSingleContainerMetrics e cid (Some stdout) db = createMetric (clock e 1) d db"
  using assms by (simp add: collectSingleContainerMetrics_def)

lemma collect_none:
  assumes "metricDataOf k stdout = None" "\<And>k'. metricDataOf k' stdout = None"
  shows "collectSingleContainerMetrics e cid (Some stdout) db = db"
  using assms by (simp add: collectSingleContainerMetrics_def split: option.splits)

text \<open>
  C4, as the code has it. On the line
  \<open>abc123 0.50% 2.1MiB / 512MiB 0.41% 1.2kB / 800B 3MB / 1MB\<close> the Runtime Stats Parser
  produces, for a container of any key, the sample with \<^verbatim>\<open>cpuUsage\<close> 0.50, \<^verbatim>\<open>memUsage\<close> 0.41,
  \<^verbatim>\<open>memLimit\<close> 512 (the limit in MiB, not a byte count), \<^verbatim>\<open>netIn\<close> 1.2 * 1024 = 1228.8,
  \<^verbatim>\<open>netOut\<close> 800, \<^verbatim>\<open>diskRead\<close> 3 * 1024 * 1024 and \<^verbatim>\<open>diskWrite\<close> 1024 * 1024; and when
  the container is in the store and the store calls succeed, the collector appends the
  row with these values.
\<close>

theorem C4_stats_line:
  "metricDataOf k statsLine =
     Some \<lparr>d_containerId = k, d_cpuUsage = Num 0.5, d_memUsage = Num 0.41,
           d_memLimit = Some (Num 512), d_netIn = Num (1.2 * 1024), d_netOut = Num 800,
           d_diskRead = Some (Num (3 * 1024 * 1024)), d_diskWrite = Some (Num (1024 * 1024))\<rparr> \<and>
   (findUnique cid db = Some c \<and> \<not> fails e 0 \<and> \<not> fails e 1 \<longrightarrow>
      metrics (collectSingleContainerMetrics e cid (Some statsLine) db) =
        metrics db @
          [\<lparr>m_id = nextId db, m_containerId = c_id c, m_cpuUsage = Num 0.5, m_memUsage = Num 0.41,
            m_memLimit = Some (Num 512), m_netIn = Num (1.2 * 1024), m_netOut = Num 800,
            m_diskRead = Some (Num (3 * 1024 * 1024)), m_diskWrite = Some (Num (1024 * 1024)),
            m_timestamp = clock e 1\<rparr>])"
  using collect_ok[of cid db c e statsLine, OF _ _ _ statsLine_metricData[of "c_id c"]]
  by (simp add: statsLine_metricData createMetric_def metricAccepted_def isFinite_def)

theorem C4_stats_line_witness:
  "findUnique ''a'' exampleDb = Some (hd (containers exampleDb)) \<and>
   map m_memLimit (metrics (collectSingleContainerMetrics quietEnv ''a'' (Some statsLine) exampleDb))
     = [None, Some (Num 512)] \<and>
   map m_netIn (metrics (collectSingleContainerMetrics quietEnv ''a'' (Some statsLine) exampleDb))
     = [Num 0, Num 1228.8]"
  using C4_stats_line[of 0 "''a''" exampleDb "hd (containers exampleDb)" quietEnv]
  by (simp add: findUnique_def exampleDb_def quietEnv_def)

text \<open>
  C4 as stated fails in the memory limit: the sample carries 512, the number of MiB, and
  not the byte count 512 * 1024 * 1024.
\<close>

theorem C4_memLimit_counterexample:
  "map_option d_memLimit (metricDataOf 0 statsLine) = Some (Some (Num 512)) \<and>
   map_option d_memLimit (metricDataOf 0 statsLine) \<noteq> Some (Some (Num (512 * 1024 * 1024)))"
  by (simp add: statsLine_metricData)

text \<open>
  Where the guards of lines 308-324 do reject: an output that is empty or blank, and an
  output whose first line the source's split cuts into fewer than 9 pieces.
\<close>

lemma metricDataOf_short:
  assumes "length (partsOf stdout) < 9"
  shows "metricDataOf k stdout = None"
  using assms by (simp add: metricDataOf_def partsOf_def Let_def)

lemma metricDataOf_blank:
  assumes "trim stdout = []"
  shows "metricDataOf k stdout = None"
  using assms by (simp add: metricDataOf_def)

lemma brokenStats_parts:
  "trim brokenStats = brokenStats"
  "hd (splitOn CHR 0x0A brokenStats) = ''abc123 0.50% 2.1MiB / 512MiB 0.41% 1.2kB / ''"
  "splitWs ''abc123 0.50% 2.1MiB / 512MiB 0.41% 1.2kB / '' =
     [''abc123'', ''0.50%'', ''2.1MiB'', ''/'', ''512MiB'', ''0.41%'', ''1.2kB'', ''/'', []]"
  by (simp_all add: brokenStats_def trim_def isSpace_def)

lemma brokenStats_fields:
  "ioMatch ''1.2kB / '' = None"
  "ioMatch ''1.2kB /  / '' = None"
  "ioMatch ''undefined / undefined'' = None"
  by (simp_all add: ioAt_def quantityAt_def isNumCh_def optCh_def isDigit_def isSpace_def
        unitAt_def isUnit_def)

lemma brokenStats_metricData:
  "metricDataOf k brokenStats =
     Some \<lparr>d_containerId = k, d_cpuUsage = Num 0.5, d_memUsage = Num 0.41,
           d_memLimit = Some (Num 512), d_netIn = Num 0, d_netOut = Num 0,
           d_diskRead = None, d_diskWrite = None\<rparr>"
proof -
  have ne: "brokenStats \<noteq> []" by (simp add: brokenStats_def)
  show ?thesis
    unfolding metricDataOf_def brokenStats_parts Let_def
    using ne by (simp add: part_def statsLine_fields brokenStats_fields isNaN_def del: ioMatch.simps)
qed

text \<open>
  C9, the code at an input where it breaks the claim. The output \<open>brokenStats\<close> has a
  first line of eight tokens that ends in a space. \<^verbatim>\<open>trim\<close> leaves that space in place,
  since a second line follows, and \<^verbatim>\<open>split(/\s+/)\<close> gives the eight tokens and an empty
  ninth piece; so the guard \<^verbatim>\<open>parts.length < 9\<close> lets the line pass. A sample is built
  from the eight tokens, with the network counters at 0 and no block counters, and the
  collector appends it to the store.
\<close>

theorem C9_broken_line_persisted:
  "partsOf brokenStats =
     [''abc123'', ''0.50%'', ''2.1MiB'', ''/'', ''512MiB'', ''0.41%'', ''1.2kB'', ''/'', []] \<and>
   metricDataOf 0 brokenStats =
     Some \<lparr>d_containerId = 0, d_cpuUsage = Num 0.5, d_memUsage = Num 0.41,
           d_memLimit = Some (Num 512), d_netIn = Num 0, d_netOut = Num 0,
           d_diskRead = None, d_diskWrite = None\<rparr> \<and>
   metrics (collectSingleContainerMetrics quietEnv ''a'' (Some brokenStats) exampleDb) =
     metrics exampleDb @
       [\<lparr>m_id = 6, m_containerId = 0, m_cpuUsage = Num 0.5, m_memUsage = Num 0.41,
         m_memLimit = Some (Num 512), m_netIn = Num 0, m_netOut = Num 0,
         m_diskRead = None, m_diskWrite = None, m_timestamp = 1000000000\<rparr>]"
proof -
  have f: "findUnique ''a'' exampleDb = Some (hd (containers exampleDb))"
    "c_id (hd (containers exampleDb)) = 0" "nextId exampleDb = 6"
    by (simp_all add: findUnique_def exampleDb_def)
  have "collectSingleContainerMetrics quietEnv ''a'' (Some brokenStats) exampleDb =
        createMetric (clock quietEnv 1)
          \<lparr>d_containerId = 0, d_cpuUsage = Num 0.5, d_memUsage = Num 0.41,
           d_memLimit = Some (Num 512), d_netIn = Num 0, d_netOut = Num 0,
           d_diskRead = None, d_diskWrite = None\<rparr> exampleDb"
    by (rule collect_ok[OF f(1)])
       (simp_all add: quietEnv_def f(2) brokenStats_metricData metricAccepted_def isFinite_def)
  moreover have "partsOf brokenStats =
     [''abc123'', ''0.50%'', ''2.1MiB'', ''/'', ''512MiB'', ''0.41%'', ''1.2kB'', ''/'', []]"
    unfolding partsOf_def brokenStats_parts by (rule refl)
  ultimately show ?thesis
    by (simp add: brokenStats_metricData createMetric_def f(3) quietEnv_def)
qed

subsection \<open>Host Sampler\<close>

text \<open>
  C8, the code at the inputs where it breaks the claim. Whatever text the first read of
  \<^verbatim>\<open>/proc/stat\<close> returns, \<^verbatim>\<open>getCPUUsage\<close> never settles: the promise of the second snapshot
  is never resolved, so no usage is computed from the two snapshots, neither the value of
  the formula nor 0.
\<close>

theorem C8_getCPUUsage_never_settles:
  "getCPUUsage (Some stat) loadAvg cpuCount = None"
  by (simp add: getCPUUsage_def await_def)

theorem C8_getCPUUsage_never_settles_witness:
  "getCPUUsage (Some (''cpu  100 0 0 100 50 0 0 0 0 0'' @ [CHR 0x0A])) 0.5 2 = None"
  using C8_getCPUUsage_never_settles[of "''cpu  100 0 0 100 50 0 0 0 0 0'' @ [CHR 0x0A]" "0.5" 2]
  by simp

text \<open>
  So a host whose \<^verbatim>\<open>/proc/stat\<close> can be read gets no host sample: \<^verbatim>\<open>collectSystemMetrics\<close>
  never settles and writes nothing. Only when the read throws does \<^verbatim>\<open>getCPUUsage\<close> return
  a value, the approximation from the load average.
\<close>

lemma collectSystemMetrics_pending:
  "h_procStat h = Some stat \<Longrightarrow> collectSystemMetrics e h db = None"
  by (simp add: collectSystemMetrics_def getCPUUsage_def await_def)

lemma getCPUUsage_fallback:
  "getCPUUsage None loadAvg cpuCount =
     Some (jsMin (jsMul (jsQuot (Num loadAvg) (Num (real cpuCount))) 100) (Num 100))"
  by (simp add: getCPUUsage_def)

subsection \<open>Usage fields of the persisted samples\<close>

lemma metricDataOf_usage:
  assumes "metricDataOf k stdout = Some d"
  shows "d_cpuUsage d = (if isNaN (cpuUsageRead stdout) then Num 0 else cpuUsageRead stdout)"
    and "d_memUsage d = (if isNaN (memUsageRead stdout) then Num 0 else memUsageRead stdout)"
  using assms
  by (auto simp: metricDataOf_def cpuUsageRead_def memUsageRead_def partsOf_def Let_def
        split: if_splits)

lemma metricDataOf_numeric:
  assumes "metricDataOf k stdout = Some d"
  shows "\<not> isNaN (d_cpuUsage d) \<and> \<not> isNaN (d_memUsage d)"
  using metricDataOf_usage[OF assms] by (simp add: isNaN_def)

lemma systemMetricsData_usage:
  assumes "systemMetricsData k now cpuUsage h = Some y"
  shows "y_cpuUsage y = (if isNaN cpuUsage then Num 0 else cpuUsage)"
    and "y_ramUsagePercent y =
           (if isNaN (percentOf (Num (h_totalMemory h - h_freeMemory h)) (Num (h_totalMemory h)))
            then Num 0
            else percentOf (Num (h_totalMemory h - h_freeMemory h)) (Num (h_totalMemory h)))"
    and "y_diskUsagePercent y =
           (if isNaN (percentOf (y_diskUsed y) (y_diskTotal y)) then Num 0
            else percentOf (y_diskUsed y) (y_diskTotal y))"
  using assms
  by (auto simp: systemMetricsData_def Let_def split: option.splits if_splits)

lemma systemMetricsData_numeric:
  assumes "systemMetricsData k now cpuUsage h = Some y"
  shows "\<not> isNaN (y_cpuUsage y) \<and> \<not> isNaN (y_ramUsagePercent y) \<and> \<not> isNaN (y_diskUsagePercent y)"
  using systemMetricsData_usage[OF assms] by (simp add: isNaN_def)

lemma usageNumeric_collectSingle:
  assumes "usageNumeric db"
  shows "usageNumeric (collectSingleContainerMetrics e cid stats db)"
proof -
  have "usageNumeric (createMetric now d db)"
    if "\<not> isNaN (d_cpuUsage d) \<and> \<not> isNaN (d_memUsage d)" for now d
    using assms that by (simp add: usageNumeric_def createMetric_def)
  then show ?thesis
    using assms metricDataOf_numeric
    by (auto simp: collectSingleContainerMetrics_def split: option.splits)
qed

lemma usageNumeric_collectSystem:
  assumes "usageNumeric db" and "collectSystemMetrics e h db = Some db'"
  shows "usageNumeric db'"
proof -
  obtain cpuUsage where c: "getCPUUsage (h_procStat h) (h_load1 h) (h_cpuCount h) = Some cpuUsage"
    using assms(2) by (auto simp: collectSystemMetrics_def split: option.splits)
  show ?thesis
  proof (cases "systemMetricsData (nextId db) (clock e 0) cpuUsage h")
    case None
    then show ?thesis using assms c by (simp add: collectSystemMetrics_def)
  next
    case (Some y)
    from systemMetricsData_numeric[OF Some] assms c Some show ?thesis
      by (auto simp: collectSystemMetrics_def usageNumeric_def split: if_splits)
  qed
qed

text \<open>
  C10. For every output of the stats query, every sample the Runtime Stats Parser builds
  has as \<^verbatim>\<open>cpuUsage\<close> and as \<^verbatim>\<open>memUsage\<close> the number read from the line, and 0 in its place
  when that number is NaN; for every value of \<^verbatim>\<open>getCPUUsage\<close> and all host readings, every
  host record built has as \<^verbatim>\<open>cpuUsage\<close> that value, as \<^verbatim>\<open>ramUsagePercent\<close> the percentage of
  used memory and as \<^verbatim>\<open>diskUsagePercent\<close> the percentage of used disk, and 0 in the place of
  each that is NaN. So none of the five fields is NaN, and a store whose persisted usage
  fields are all numbers is again such a store after the collector has sampled a
  container, and after it has sampled the host whenever that call settles.
\<close>

theorem C10_usage_never_NaN:
  "(metricDataOf k stdout = Some d \<longrightarrow>
      d_cpuUsage d = (if isNaN (cpuUsageRead stdout) then Num 0 else cpuUsageRead stdout) \<and>
      d_memUsage d = (if isNaN (memUsageRead stdout) then Num 0 else memUsageRead stdout) \<and>
      \<not> isNaN (d_cpuUsage d) \<and> \<not> isNaN (d_memUsage d)) \<and>
   (systemMetricsData k now cpuUsage h = Some y \<longrightarrow>
      y_cpuUsage y = (if isNaN cpuUsage then Num 0 else cpuUsage) \<and>
      y_ramUsagePercent y =
        (if isNaN (percentOf (Num (h_totalMemory h - h_freeMemory h)) (Num (h_totalMemory h)))
         then Num 0
         else percentOf (Num (h_totalMemory h - h_freeMemory h)) (Num (h_totalMemory h))) \<and>
      y_diskUsagePercent y =
        (if isNaN (percentOf (y_diskUsed y) (y_diskTotal y)) then Num 0
         else percentOf (y_diskUsed y) (y_diskTotal y)) \<and>
      \<not> isNaN (y_cpuUsage y) \<and> \<not> isNaN (y_ramUsagePercent y) \<and> \<not> isNaN (y_diskUsagePercent y)) \<and>
   (usageNumeric db \<longrightarrow>
      usageNumeric (collectSingleContainerMetrics e cid stats db) \<and>
      (collectSystemMetrics e h db = Some db' \<longrightarrow> usageNumeric db'))"
  using metricDataOf_usage[of k stdout d] metricDataOf_numeric[of k stdout d]
    systemMetricsData_usage[of k now cpuUsage h y] systemMetricsData_numeric[of k now cpuUsage h y]
    usageNumeric_collectSingle[of db e cid stats] usageNumeric_collectSystem[of db e h db']
  by blast

lemma emptyStatsLine_parts:
  "trim emptyStatsLine = emptyStatsLine"
  "hd (splitOn CHR 0x0A emptyStatsLine) = emptyStatsLine"
  "splitWs emptyStatsLine =
     [''abc123'', ''--'', ''--'', ''/'', ''--'', ''--'', ''--'', ''/'', ''--'', ''--'', ''/'', ''--'']"
  by (simp_all add: emptyStatsLine_def trim_def isSpace_def)

lemma emptyStatsLine_fields:
  "parseFloat ''--'' = NaN" "memLimitMB ''-- / --'' = None" "ioMatch ''-- / --'' = None"
  by (simp_all add: parse_defs memLimitMB_def trim_def ioAt_def quantityAt_def isNumCh_def optCh_def)

lemma emptyStatsLine_metricData:
  "metricDataOf k emptyStatsLine =
     Some \<lparr>d_containerId = k, d_cpuUsage = Num 0, d_memUsage = Num 0, d_memLimit = None,
           d_netIn = Num 0, d_netOut = Num 0, d_diskRead = None, d_diskWrite = None\<rparr>"
proof -
  have ne: "emptyStatsLine \<noteq> []" by (simp add: emptyStatsLine_def)
  show ?thesis
    unfolding metricDataOf_def emptyStatsLine_parts Let_def
    using ne by (simp add: part_def emptyStatsLine_fields isNaN_def del: ioMatch.simps)
qed

lemma emptyStatsLine_reads:
  "cpuUsageRead emptyStatsLine = NaN" "memUsageRead emptyStatsLine = NaN"
  unfolding cpuUsageRead_def memUsageRead_def partsOf_def emptyStatsLine_parts
  by (simp_all add: emptyStatsLine_fields)

lemma emptyStatsLine_collected:
  "collectSingleContainerMetrics quietEnv ''a'' (Some emptyStatsLine) exampleDb =
     createMetric 1000000000
       \<lparr>d_containerId = 0, d_cpuUsage = Num 0, d_memUsage = Num 0, d_memLimit = None,
        d_netIn = Num 0, d_netOut = Num 0, d_diskRead = None, d_diskWrite = None\<rparr> exampleDb"
proof -
  have f: "findUnique ''a'' exampleDb = Some (hd (containers exampleDb))"
    "c_id (hd (containers exampleDb)) = 0" "clock quietEnv 1 = 1000000000"
    by (simp_all add: findUnique_def exampleDb_def quietEnv_def)
  show ?thesis
    unfolding f(3)[symmetric]
    by (rule collect_ok[OF f(1)])
       (simp_all add: quietEnv_def f(2) emptyStatsLine_metricData metricAccepted_def isFinite_def)
qed

lemma exampleHost_row:
  "systemMetricsData 6 1000000000 (Num 25) exampleHost =
     Some \<lparr>y_id = 6, y_cpuUsage = Num 25, y_cpuLoad1 = Num 0.5, y_cpuLoad5 = Num 0.5,
           y_cpuLoad15 = Num 0.5, y_ramUsed = Num 4096, y_ramFree = Num 4096,
           y_ramUsagePercent = Num 50, y_ramTotal = Num 8192, y_diskUsed = Num 0,
           y_diskFree = Num 0, y_diskUsagePercent = Num 0, y_diskTotal = Num 0,
           y_networkIn = Num 0, y_networkOut = Num 0, y_timestamp = 1000000000\<rparr>"
proof -
  have s: "splitWs (trim ''overlay 0M 0M 0M - /'') = [''overlay'', ''0M'', ''0M'', ''0M'', ''-'', ''/'']"
    by (simp add: trim_def isSpace_def)
  have f: "parseFloat ''0'' = Num 0" by (simp add: parse_defs)
  show ?thesis
    unfolding systemMetricsData_def exampleHost_def
    by (simp add: s f Let_def isNaN_def percentOf_def jsMul_def toDouble_Num)
qed

lemma exampleHost_cpu:
  "getCPUUsage (h_procStat exampleHost) (h_load1 exampleHost) (h_cpuCount exampleHost) = Some (Num 25)"
  by (simp add: getCPUUsage_def exampleHost_def jsMul_def toDouble_Num)

lemma exampleHost_collected:
  "collectSystemMetrics quietEnv exampleHost exampleDb =
     Some (exampleDb\<lparr>systemMetrics :=
       [\<lparr>y_id = 6, y_cpuUsage = Num 25, y_cpuLoad1 = Num 0.5, y_cpuLoad5 = Num 0.5,
         y_cpuLoad15 = Num 0.5, y_ramUsed = Num 4096, y_ramFree = Num 4096,
         y_ramUsagePercent = Num 50, y_ramTotal = Num 8192, y_diskUsed = Num 0,
         y_diskFree = Num 0, y_diskUsagePercent = Num 0, y_diskTotal = Num 0,
         y_networkIn = Num 0, y_networkOut = Num 0, y_timestamp = 1000000000\<rparr>], nextId := 7\<rparr>)"
proof -
  have n: "nextId exampleDb = 6" "clock quietEnv 0 = 1000000000" "fails quietEnv 0 = False"
    "systemMetrics exampleDb = []"
    by (simp_all add: exampleDb_def quietEnv_def)
  show ?thesis
    unfolding collectSystemMetrics_def exampleHost_cpu n
    by (simp add: exampleHost_row systemMetricAccepted_def isFinite_def n)
qed

theorem C10_usage_never_NaN_witness:
  "usageNumeric exampleDb \<and>
   cpuUsageRead emptyStatsLine = NaN \<and>
   memUsageRead emptyStatsLine = NaN \<and>
   map m_cpuUsage (metrics (collectSingleContainerMetrics quietEnv ''a'' (Some emptyStatsLine) exampleDb))
     = [Num 1, Num 0] \<and>
   map m_memUsage (metrics (collectSingleContainerMetrics quietEnv ''a'' (Some emptyStatsLine) exampleDb))
     = [Num 2, Num 0] \<and>
   usageNumeric (collectSingleContainerMetrics quietEnv ''a'' (Some emptyStatsLine) exampleDb) \<and>
   h_procStat exampleHost = None \<and>
   percentOf (Num 0) (Num 0) = NaN \<and>
   map_option systemMetrics (collectSystemMetrics quietEnv exampleHost exampleDb) =
     Some [\<lparr>y_id = 6, y_cpuUsage = Num 25, y_cpuLoad1 = Num 0.5, y_cpuLoad5 = Num 0.5,
            y_cpuLoad15 = Num 0.5, y_ramUsed = Num 4096, y_ramFree = Num 4096,
            y_ramUsagePercent = Num 50, y_ramTotal = Num 8192, y_diskUsed = Num 0,
            y_diskFree = Num 0, y_diskUsagePercent = Num 0, y_diskTotal = Num 0,
            y_networkIn = Num 0, y_networkOut = Num 0, y_timestamp = 1000000000\<rparr>] \<and>
   map_option usageNumeric (collectSystemMetrics quietEnv exampleHost exampleDb) = Some True"
proof -
  have u: "usageNumeric exampleDb" by (simp add: usageNumeric_def exampleDb_def isNaN_def)
  have m: "map m_cpuUsage (metrics exampleDb) = [Num 1]" "map m_memUsage (metrics exampleDb) = [Num 2]"
    by (simp_all add: exampleDb_def)
  have p: "percentOf (Num 0) (Num 0) = NaN" by (simp add: percentOf_def jsMul_def)
  have hp: "h_procStat exampleHost = None" by (simp add: exampleHost_def)
  have hm: "percentOf (Num (h_totalMemory exampleHost - h_freeMemory exampleHost))
              (Num (h_totalMemory exampleHost)) = Num 50"
    by (simp add: exampleHost_def percentOf_def jsMul_def toDouble_Num)
  from u C10_usage_never_NaN[where db = exampleDb and e = quietEnv and cid = "''a''"
      and stats = "Some emptyStatsLine" and h = exampleHost and k = 6 and now = 1000000000
      and cpuUsage = "Num 25" and stdout = emptyStatsLine
      and d = "\<lparr>d_containerId = 6, d_cpuUsage = Num 0, d_memUsage = Num 0, d_memLimit = None,
           d_netIn = Num 0, d_netOut = Num 0, d_diskRead = None, d_diskWrite = None\<rparr>"
      and y = "\<lparr>y_id = 6, y_cpuUsage = Num 25, y_cpuLoad1 = Num 0.5, y_cpuLoad5 = Num 0.5,
           y_cpuLoad15 = Num 0.5, y_ramUsed = Num 4096, y_ramFree = Num 4096,
           y_ramUsagePercent = Num 50, y_ramTotal = Num 8192, y_diskUsed = Num 0,
           y_diskFree = Num 0, y_diskUsagePercent = Num 0, y_diskTotal = Num 0,
           y_networkIn = Num 0, y_networkOut = Num 0, y_timestamp = 1000000000\<rparr>"
      and db' = "exampleDb\<lparr>systemMetrics :=
          [\<lparr>y_id = 6, y_cpuUsage = Num 25, y_cpuLoad1 = Num 0.5, y_cpuLoad5 = Num 0.5,
            y_cpuLoad15 = Num 0.5, y_ramUsed = Num 4096, y_ramFree = Num 4096,
            y_ramUsagePercent = Num 50, y_ramTotal = Num 8192, y_diskUsed = Num 0,
            y_diskFree = Num 0, y_diskUsagePercent = Num 0, y_diskTotal = Num 0,
            y_networkIn = Num 0, y_networkOut = Num 0, y_timestamp = 1000000000\<rparr>], nextId := 7\<rparr>"]
  show ?thesis
    by (simp add: emptyStatsLine_reads emptyStatsLine_collected emptyStatsLine_metricData
          exampleHost_row exampleHost_collected createMetric_def m p hp hm isNaN_def)
qed

end
